theory Spec2Isabelle
  imports Main
begin

section \<open>JavaScript values\<close>

text \<open>
  The exporter receives arbitrary JavaScript values as its dataset. The values that the
  code distinguishes are modelled here: \<open>undefined\<close>, \<open>null\<close>, booleans, numbers
  (integers only: fractions, \<open>NaN\<close> and the infinities are left out), strings, \<open>Date\<close>
  objects (carrying the text of \<open>toISOString()\<close> and of \<open>toString()\<close>), arrays, and
  plain objects. An object is the list of its own enumerable properties in property
  order; a well-formed object has distinct keys. Inherited properties
  (\<open>Object.prototype\<close> members) and the integer-keys-first ordering of property
  enumeration are not modelled.
\<close>

datatype jsval =
    JUndefined
  | JNull
  | JBool bool
  | JNum int
  | JStr string
  | JDate string string
  | JArr "jsval list"
  | JObj "(string \<times> jsval) list"

text \<open>The thrown values of the module: plain \<open>Error\<close>, the two custom classes, and the
  \<open>TypeError\<close> of the runtime. Each carries its message.\<close>

datatype error =
    Error string
  | DataExportError string
  | FileSystemError string
  | TypeError string

fun message :: "error \<Rightarrow> string" where
  "message (Error m) = m"
| "message (DataExportError m) = m"
| "message (FileSystemError m) = m"
| "message (TypeError m) = m"

text \<open>\<open>ToBoolean\<close>: what \<open>!data\<close> and \<open>value && ...\<close> test.\<close>

fun truthy :: "jsval \<Rightarrow> bool" where
  "truthy JUndefined = False"
| "truthy JNull = False"
| "truthy (JBool b) = b"
| "truthy (JNum n) = (n \<noteq> 0)"
| "truthy (JStr s) = (s \<noteq> [])"
| "truthy (JDate i t) = True"
| "truthy (JArr xs) = True"
| "truthy (JObj kvs) = True"

fun typeof :: "jsval \<Rightarrow> string" where
  "typeof JUndefined = ''undefined''"
| "typeof JNull = ''object''"
| "typeof (JBool b) = ''boolean''"
| "typeof (JNum n) = ''number''"
| "typeof (JStr s) = ''string''"
| "typeof (JDate i t) = ''object''"
| "typeof (JArr xs) = ''object''"
| "typeof (JObj kvs) = ''object''"

fun isArray :: "jsval \<Rightarrow> bool" where
  "isArray (JArr xs) = True"
| "isArray v = False"

section \<open>Validation\<close>

text \<open>\<open>ExportStrategy.validate\<close>: throws when \<open>!data\<close>.\<close>

definition ExportStrategy_validate :: "jsval \<Rightarrow> error + unit" where
  "ExportStrategy_validate data =
     (if \<not> truthy data then Inl (DataExportError ''Data cannot be null or undefined'')
      else Inr ())"

text \<open>\<open>CsvExportStrategy.validate\<close>: the shared check, then the shape check
  \<open>!Array.isArray(data) && typeof data !== "object"\<close>.\<close>

definition CsvExportStrategy_validate :: "jsval \<Rightarrow> error + unit" where
  "CsvExportStrategy_validate data =
     (case ExportStrategy_validate data of
        Inl e \<Rightarrow> Inl e
      | Inr u \<Rightarrow>
          if \<not> isArray data \<and> typeof data \<noteq> ''object''
          then Inl (DataExportError ''CSV export requires object or array of objects'')
          else Inr ())"

text \<open>What the comment on the shape check asks for (``we need objects or arrays of
  objects''): a record is a plain object, a sequence of records an array of them.\<close>

fun is_record :: "jsval \<Rightarrow> bool" where
  "is_record (JObj kvs) = True"
| "is_record v = False"

fun is_record_or_records :: "jsval \<Rightarrow> bool" where
  "is_record_or_records (JObj kvs) = True"
| "is_record_or_records (JArr xs) = list_all is_record xs"
| "is_record_or_records v = False"

section \<open>Strings and numbers\<close>

abbreviation dquote :: char where "dquote \<equiv> CHR 0x22"
abbreviation newline :: char where "newline \<equiv> CHR 0x0A"
abbreviation carriage_return :: char where "carriage_return \<equiv> CHR 0x0D"
abbreviation backslash :: char where "backslash \<equiv> CHR 0x5C"

text \<open>\<open>Array.prototype.join\<close> on an array of strings.\<close>

fun join :: "string \<Rightarrow> string list \<Rightarrow> string" where
  "join sep [] = []"
| "join sep [x] = x"
| "join sep (x # y # ys) = x @ sep @ join sep (y # ys)"

text \<open>\<open>String.prototype.includes\<close>: the argument occurs as a substring.\<close>

fun starts_with :: "string \<Rightarrow> string \<Rightarrow> bool" where
  "starts_with s [] = True"
| "starts_with [] (d # ds) = False"
| "starts_with (c # cs) (d # ds) = (c = d \<and> starts_with cs ds)"

fun str_includes :: "string \<Rightarrow> string \<Rightarrow> bool" where
  "str_includes [] d = (d = [])"
| "str_includes (c # cs) d = (starts_with (c # cs) d \<or> str_includes cs d)"

text \<open>\<open>stringValue.replace(/"/g, '""')\<close>.\<close>

definition double_quotes :: "string \<Rightarrow> string" where
  "double_quotes s = concat (map (\<lambda>c. if c = dquote then [dquote, dquote] else [c]) s)"

text \<open>\<open>String.prototype.toLowerCase\<close> on ASCII letters.\<close>

definition lower_char :: "char \<Rightarrow> char" where
  "lower_char c =
     (if (65::nat) \<le> of_char c \<and> of_char c \<le> (90::nat) then char_of (of_char c + (32::nat)) else c)"

definition toLowerCase :: "string \<Rightarrow> string" where
  "toLowerCase s = map lower_char s"

text \<open>Decimal text of a number (\<open>Number.prototype.toString\<close> on integers, which
  prints every digit for magnitudes below \<open>10\<^sup>2\<^sup>1\<close>).\<close>

fun show_nat :: "nat \<Rightarrow> string" where
  "show_nat n =
     (if n < 10 then [char_of (48 + n)] else show_nat (n div 10) @ [char_of (48 + n mod 10)])"

declare show_nat.simps [simp del]

definition show_int :: "int \<Rightarrow> string" where
  "show_int i = (if i < 0 then CHR ''-'' # show_nat (nat (- i)) else show_nat (nat i))"

section \<open>Objects\<close>

text \<open>\<open>obj[key]\<close> on the own properties of an object, \<open>undefined\<close> when absent.\<close>

definition obj_get :: "(string \<times> jsval) list \<Rightarrow> string \<Rightarrow> jsval" where
  "obj_get kvs k = (case map_of kvs k of None \<Rightarrow> JUndefined | Some v \<Rightarrow> v)"

text \<open>\<open>obj[key] = value\<close>, and \<open>Map.prototype.set\<close>: an existing key keeps its place, a new
  one is added last.\<close>

fun obj_set :: "string \<Rightarrow> 'v \<Rightarrow> (string \<times> 'v) list \<Rightarrow> (string \<times> 'v) list" where
  "obj_set k v [] = [(k, v)]"
| "obj_set k v ((k', v') # kvs) =
     (if k = k' then (k, v) # kvs else (k', v') # obj_set k v kvs)"

text \<open>\<open>Object.entries(value)\<close>: the own enumerable properties. An array has its indices,
  a string its characters, a \<open>Date\<close> and the primitives none.\<close>

fun own_entries :: "jsval \<Rightarrow> (string \<times> jsval) list" where
  "own_entries (JObj kvs) = kvs"
| "own_entries (JArr xs) = zip (map show_nat [0..<length xs]) xs"
| "own_entries (JStr s) = zip (map show_nat [0..<length s]) (map (\<lambda>c. JStr [c]) s)"
| "own_entries v = []"

text \<open>\<open>Object.assign(target, source)\<close> on the target's properties.\<close>

definition obj_assign :: "(string \<times> jsval) list \<Rightarrow> jsval \<Rightarrow> (string \<times> jsval) list" where
  "obj_assign target source = foldl (\<lambda>t (k, v). obj_set k v t) target (own_entries source)"

section \<open>The object flattener\<close>

text \<open>The entries of a value that the flattener descends into are no larger than the value.\<close>

lemma size_own_entries:
  "truthy obj \<Longrightarrow> typeof obj = ''object'' \<Longrightarrow> \<not> isArray obj
    \<Longrightarrow> size_list (size_prod (\<lambda>_. 0) size) (own_entries obj) \<le> size obj"
  by (cases obj) auto

text \<open>\<open>CsvExportStrategy.flattenObject(obj, prefix, maxDepth, currentDepth)\<close>; the
  \<open>for\<close> loop over \<open>Object.entries(obj)\<close> is \<open>flatten_entries\<close>, with the object
  \<open>flattened\<close> under construction as its last argument.\<close>

function flattenObject :: "jsval \<Rightarrow> string \<Rightarrow> int \<Rightarrow> nat \<Rightarrow> jsval"
  and flatten_entries ::
    "(string \<times> jsval) list \<Rightarrow> string \<Rightarrow> int \<Rightarrow> nat \<Rightarrow> (string \<times> jsval) list
      \<Rightarrow> (string \<times> jsval) list"
where
  "flattenObject obj prefix maxDepth currentDepth =
     (if maxDepth \<le> int currentDepth \<or> \<not> truthy obj \<or> typeof obj \<noteq> ''object'' \<or> isArray obj
      then obj
      else JObj (flatten_entries (own_entries obj) prefix maxDepth currentDepth []))"
| "flatten_entries [] prefix maxDepth currentDepth flattened = flattened"
| "flatten_entries ((key, value) # rest) prefix maxDepth currentDepth flattened =
     (let newKey = (if prefix \<noteq> [] then prefix @ ''.'' @ key else key) in
      flatten_entries rest prefix maxDepth currentDepth
        (if truthy value \<and> typeof value = ''object'' \<and> \<not> isArray value
         then obj_assign flattened (flattenObject value newKey maxDepth (currentDepth + 1))
         else obj_set newKey value flattened))"
  by pat_completeness auto

termination
  apply (relation "measure (\<lambda>x. case x of
            Inl (obj, _, _, _) \<Rightarrow> 2 * size obj + 2
          | Inr (es, _, _, _, _) \<Rightarrow> 2 * size_list (size_prod (\<lambda>_. 0) size) es + 1)")
    apply (auto dest: size_own_entries)
  done

declare flattenObject.simps [simp del]

section \<open>Conversion to text\<close>

text \<open>\<open>String(value)\<close>, and the element texts that \<open>Array.prototype.join\<close> puts
  together (\<open>null\<close> and \<open>undefined\<close> elements give the empty string).\<close>

fun to_string :: "jsval \<Rightarrow> string"
  and join_strings :: "jsval list \<Rightarrow> string list"
where
  "to_string JUndefined = ''undefined''"
| "to_string JNull = ''null''"
| "to_string (JBool b) = (if b then ''true'' else ''false'')"
| "to_string (JNum n) = show_int n"
| "to_string (JStr s) = s"
| "to_string (JDate isoText t) = t"
| "to_string (JArr xs) = join '','' (join_strings xs)"
| "to_string (JObj kvs) = ''[object Object]''"
| "join_strings [] = []"
| "join_strings (x # xs) =
     (if x = JUndefined \<or> x = JNull then [] else to_string x) # join_strings xs"

definition array_join :: "jsval list \<Rightarrow> string \<Rightarrow> string" where
  "array_join xs sep = join sep (join_strings xs)"

subsection \<open>\<open>JSON.stringify\<close>\<close>

definition hex_digit :: "nat \<Rightarrow> char" where
  "hex_digit n = (if n < 10 then char_of (48 + n) else char_of (87 + n))"

definition json_escape_char :: "char \<Rightarrow> string" where
  "json_escape_char c =
     (if c = CHR 0x08 then [backslash, CHR ''b'']
      else if c = CHR 0x09 then [backslash, CHR ''t'']
      else if c = newline then [backslash, CHR ''n'']
      else if c = CHR 0x0C then [backslash, CHR ''f'']
      else if c = carriage_return then [backslash, CHR ''r'']
      else if c = dquote then [backslash, dquote]
      else if c = backslash then [backslash, backslash]
      else if (of_char c :: nat) < 32
        then [backslash, CHR ''u'', CHR ''0'', CHR ''0'',
              hex_digit (of_char c div 16), hex_digit (of_char c mod 16)]
      else [c])"

definition QuoteJSONString :: "string \<Rightarrow> string" where
  "QuoteJSONString s = dquote # concat (map json_escape_char s) @ [dquote]"

text \<open>The brackets around the serialized elements or members: nothing between them when
  there is none, a comma between them in the compact form (\<open>gap = 0\<close>), and one per line,
  indented, otherwise. \<open>stepback\<close> is the indentation of the enclosing level.\<close>

definition json_wrap :: "char \<Rightarrow> char \<Rightarrow> nat \<Rightarrow> nat \<Rightarrow> string list \<Rightarrow> string" where
  "json_wrap opn cls gap stepback partial =
     (if partial = [] then [opn, cls]
      else if gap = 0 then [opn] @ join '','' partial @ [cls]
      else [opn, newline] @ replicate (stepback + gap) CHR '' ''
           @ join ('','' @ [newline] @ replicate (stepback + gap) CHR '' '') partial
           @ [newline] @ replicate stepback CHR '' '' @ [cls])"

text \<open>\<open>SerializeJSONProperty\<close> of the language standard, with \<open>None\<close> for the result
  \<open>undefined\<close>: a \<open>Date\<close> gives its \<open>toJSON()\<close> text, an \<open>undefined\<close> array element
  gives \<open>null\<close>, an \<open>undefined\<close> member is left out.\<close>

fun SerializeJSONProperty :: "nat \<Rightarrow> nat \<Rightarrow> jsval \<Rightarrow> string option"
  and SerializeJSONArray :: "nat \<Rightarrow> nat \<Rightarrow> jsval list \<Rightarrow> string list"
  and SerializeJSONObject :: "nat \<Rightarrow> nat \<Rightarrow> (string \<times> jsval) list \<Rightarrow> string list"
where
  "SerializeJSONProperty gap indent JUndefined = None"
| "SerializeJSONProperty gap indent JNull = Some ''null''"
| "SerializeJSONProperty gap indent (JBool b) = Some (if b then ''true'' else ''false'')"
| "SerializeJSONProperty gap indent (JNum n) = Some (show_int n)"
| "SerializeJSONProperty gap indent (JStr s) = Some (QuoteJSONString s)"
| "SerializeJSONProperty gap indent (JDate isoText t) = Some (QuoteJSONString isoText)"
| "SerializeJSONProperty gap indent (JArr xs) =
     Some (json_wrap CHR ''['' CHR '']'' gap indent (SerializeJSONArray gap (indent + gap) xs))"
| "SerializeJSONProperty gap indent (JObj kvs) =
     Some (json_wrap CHR ''{'' CHR ''}'' gap indent (SerializeJSONObject gap (indent + gap) kvs))"
| "SerializeJSONArray gap indent [] = []"
| "SerializeJSONArray gap indent (x # xs) =
     (case SerializeJSONProperty gap indent x of None \<Rightarrow> ''null'' | Some s \<Rightarrow> s)
       # SerializeJSONArray gap indent xs"
| "SerializeJSONObject gap indent [] = []"
| "SerializeJSONObject gap indent ((k, v) # kvs) =
     (case SerializeJSONProperty gap indent v of
        None \<Rightarrow> SerializeJSONObject gap indent kvs
      | Some s \<Rightarrow>
          (QuoteJSONString k @ '':'' @ (if gap = 0 then [] else '' '') @ s)
            # SerializeJSONObject gap indent kvs)"

text \<open>\<open>JSON.stringify(value)\<close> is \<open>JSON_stringify value 0\<close>, and
  \<open>JSON.stringify(value, null, 2)\<close> is \<open>JSON_stringify value 2\<close>.\<close>

definition JSON_stringify :: "jsval \<Rightarrow> nat \<Rightarrow> string option" where
  "JSON_stringify v gap = SerializeJSONProperty gap 0 v"

text \<open>A value inside a template literal: \<open>undefined\<close> is spelt out.\<close>

fun template_text :: "string option \<Rightarrow> string" where
  "template_text None = ''undefined''"
| "template_text (Some s) = s"

subsection \<open>\<open>JSON.parse\<close>\<close>

text \<open>The parser of the language standard, for the texts that the exporter produces and
  any other JSON text over the values modelled: white space is skipped around every
  token; a number is an optional minus sign and decimal digits without a leading zero
  (a fraction or an exponent is outside the numbers modelled and gives no result); a
  string is read up to its closing quote, with the escapes of the standard; a repeated
  member name sets the member again. The result \<open>None\<close> stands for the
  \<open>SyntaxError\<close>.\<close>

definition is_ws :: "char \<Rightarrow> bool" where
  "is_ws c = (c = CHR '' '' \<or> c = CHR 0x09 \<or> c = newline \<or> c = carriage_return)"

definition skip_ws :: "string \<Rightarrow> string" where
  "skip_ws s = dropWhile is_ws s"

definition is_digit :: "char \<Rightarrow> bool" where
  "is_digit c = ((48::nat) \<le> of_char c \<and> of_char c \<le> (57::nat))"

definition digits_value :: "string \<Rightarrow> nat" where
  "digits_value ds = foldl (\<lambda>a c. 10 * a + (of_char c - 48)) 0 ds"

definition hex_value :: "char \<Rightarrow> nat option" where
  "hex_value c =
     (let n = (of_char c :: nat) in
      if 48 \<le> n \<and> n \<le> 57 then Some (n - 48)
      else if 97 \<le> n \<and> n \<le> 102 then Some (n - 87)
      else if 65 \<le> n \<and> n \<le> 70 then Some (n - 55)
      else None)"

definition hex4 :: "char \<Rightarrow> char \<Rightarrow> char \<Rightarrow> char \<Rightarrow> nat option" where
  "hex4 a b c d =
     (case (hex_value a, hex_value b, hex_value c, hex_value d) of
        (Some x, Some y, Some z, Some u) \<Rightarrow> Some (((x * 16 + y) * 16 + z) * 16 + u)
      | _ \<Rightarrow> None)"

definition utf8 :: "nat \<Rightarrow> string" where
  "utf8 n =
     (if n < 128 then [char_of n]
      else if n < 2048 then [char_of (192 + n div 64), char_of (128 + n mod 64)]
      else [char_of (224 + n div 4096), char_of (128 + n div 64 mod 64), char_of (128 + n mod 64)])"

definition unescape :: "char \<Rightarrow> char option" where
  "unescape e =
     (if e = dquote then Some dquote
      else if e = backslash then Some backslash
      else if e = CHR ''/'' then Some CHR ''/''
      else if e = CHR ''b'' then Some (CHR 0x08)
      else if e = CHR ''f'' then Some (CHR 0x0C)
      else if e = CHR ''n'' then Some newline
      else if e = CHR ''r'' then Some carriage_return
      else if e = CHR ''t'' then Some (CHR 0x09)
      else None)"

fun parse_chars :: "string \<Rightarrow> (string \<times> string) option" where
  "parse_chars [] = None"
| "parse_chars (c # cs) =
     (if c = dquote then Some ([], cs)
      else if c = backslash then
        (case cs of
           [] \<Rightarrow> None
         | e # r \<Rightarrow>
             if e = CHR ''u'' then
               (case r of
                  a # b # c' # d # r' \<Rightarrow>
                    (case hex4 a b c' d of
                       None \<Rightarrow> None
                     | Some code \<Rightarrow>
                         map_option (\<lambda>(str, rest). (utf8 code @ str, rest)) (parse_chars r'))
                | _ \<Rightarrow> None)
             else
               (case unescape e of
                  None \<Rightarrow> None
                | Some ch \<Rightarrow> map_option (\<lambda>(str, rest). (ch # str, rest)) (parse_chars r)))
      else if (of_char c :: nat) < 32 then None
      else map_option (\<lambda>(str, rest). (c # str, rest)) (parse_chars cs))"

definition parse_number :: "string \<Rightarrow> (jsval \<times> string) option" where
  "parse_number s =
     (let negative = (s \<noteq> [] \<and> hd s = CHR ''-'');
          s1 = (if negative then tl s else s);
          ds = takeWhile is_digit s1;
          rest = dropWhile is_digit s1
      in if ds = [] then None
         else if hd ds = CHR ''0'' \<and> 1 < length ds then None
         else if rest \<noteq> [] \<and> hd rest \<in> set ''.eE'' then None
         else Some (JNum (if negative then - int (digits_value ds) else int (digits_value ds)), rest))"

definition parse_scalar :: "string \<Rightarrow> (jsval \<times> string) option" where
  "parse_scalar s =
     (if starts_with s ''null'' then Some (JNull, drop 4 s)
      else if starts_with s ''true'' then Some (JBool True, drop 4 s)
      else if starts_with s ''false'' then Some (JBool False, drop 5 s)
      else if s \<noteq> [] \<and> hd s = dquote then
        map_option (\<lambda>(str, rest). (JStr str, rest)) (parse_chars (tl s))
      else parse_number s)"

definition object_of :: "(string \<times> jsval) list \<Rightarrow> jsval" where
  "object_of members = JObj (foldl (\<lambda>obj (k, v). obj_set k v obj) [] members)"

datatype part = Value | Elements | Members

partial_function (option) parse_json :: "part \<Rightarrow> string \<Rightarrow> (jsval \<times> string) option" where
  "parse_json part s =
     (case part of
        Value \<Rightarrow>
          (case skip_ws s of
             [] \<Rightarrow> None
           | c # r \<Rightarrow>
               if c = CHR ''['' then
                 (if skip_ws r \<noteq> [] \<and> hd (skip_ws r) = CHR '']''
                  then Some (JArr [], tl (skip_ws r))
                  else parse_json Elements r)
               else if c = CHR ''{'' then
                 (if skip_ws r \<noteq> [] \<and> hd (skip_ws r) = CHR ''}''
                  then Some (JObj [], tl (skip_ws r))
                  else Option.bind (parse_json Members r)
                         (\<lambda>(members, rest). Some (object_of (own_entries members), rest)))
               else parse_scalar (c # r))
      | Elements \<Rightarrow>
          Option.bind (parse_json Value s)
            (\<lambda>(v, r).
               case skip_ws r of
                 [] \<Rightarrow> None
               | c # r' \<Rightarrow>
                   if c = CHR '','' then
                     Option.bind (parse_json Elements r')
                       (\<lambda>(more, rest).
                          case more of JArr vs \<Rightarrow> Some (JArr (v # vs), rest) | _ \<Rightarrow> None)
                   else if c = CHR '']'' then Some (JArr [v], r')
                   else None)
      | Members \<Rightarrow>
          (case skip_ws s of
             [] \<Rightarrow> None
           | q # r \<Rightarrow>
               if q \<noteq> dquote then None
               else
                 (case parse_chars r of
                    None \<Rightarrow> None
                  | Some (k, r1) \<Rightarrow>
                      (case skip_ws r1 of
                         [] \<Rightarrow> None
                       | colon # r2 \<Rightarrow>
                           if colon \<noteq> CHR '':'' then None
                           else
                             Option.bind (parse_json Value r2)
                               (\<lambda>(v, r3).
                                  case skip_ws r3 of
                                    [] \<Rightarrow> None
                                  | c # r4 \<Rightarrow>
                                      if c = CHR '','' then
                                        Option.bind (parse_json Members r4)
                                          (\<lambda>(more, rest).
                                             case more of
                                               JObj kvs \<Rightarrow> Some (JObj ((k, v) # kvs), rest)
                                             | _ \<Rightarrow> None)
                                      else if c = CHR ''}'' then Some (JObj [(k, v)], r4)
                                      else None)))))"

declare parse_json.simps [code]

definition JSON_parse :: "string \<Rightarrow> jsval option" where
  "JSON_parse text =
     (case parse_json Value text of
        None \<Rightarrow> None
      | Some (v, rest) \<Rightarrow> if skip_ws rest = [] then Some v else None)"

text \<open>The values that JSON represents as they are: no \<open>undefined\<close>, no \<open>Date\<close>, and
  objects with distinct member names (as every object has).\<close>

fun json_value :: "jsval \<Rightarrow> bool"
  and json_values :: "jsval list \<Rightarrow> bool"
  and json_members :: "(string \<times> jsval) list \<Rightarrow> bool"
where
  "json_value JUndefined = False"
| "json_value JNull = True"
| "json_value (JBool b) = True"
| "json_value (JNum n) = True"
| "json_value (JStr s) = True"
| "json_value (JDate isoText t) = False"
| "json_value (JArr xs) = json_values xs"
| "json_value (JObj kvs) = (distinct (map fst kvs) \<and> json_members kvs)"
| "json_values [] = True"
| "json_values (x # xs) = (json_value x \<and> json_values xs)"
| "json_members [] = True"
| "json_members ((k, v) # kvs) = (json_value v \<and> json_members kvs)"

text \<open>The text after a number must not continue the number.\<close>

definition number_ends :: "string \<Rightarrow> bool" where
  "number_ends rest = (rest = [] \<or> (\<not> is_digit (hd rest) \<and> hd rest \<notin> set ''.eE''))"

text \<open>The metadata object of the JSON transform, by export time and record count.\<close>

definition metadata_of :: "string \<Rightarrow> int \<Rightarrow> jsval" where
  "metadata_of exportedAt recordCount =
     JObj [(''exportedAt'', JStr exportedAt), (''format'', JStr ''json''),
           (''recordCount'', JNum recordCount), (''exporter'', JStr ''DataExporter v1.0.0'')]"

section \<open>Options\<close>

text \<open>An options object is the list of the options it sets, in order; \<open>{...a, ...b}\<close> is
  \<open>a @ b\<close>, and a later setting of an option overrides an earlier one. An option set to
  \<open>null\<close> is \<open>None\<close>; booleans stand for the truthiness of what was passed.\<close>

datatype setting =
    OutputPath "string option"
  | OutputDir "string option"
  | CreateTimestamp bool
  | Filename "string option"
  | Encoding string
  | Prettify bool
  | IncludeMetadata bool
  | DateFormat string
  | Delimiter string
  | IncludeHeaders bool
  | QuoteStrings bool
  | EscapeQuotes bool
  | NullValue string
  | FlattenObjects bool
  | MaxDepth int

text \<open>What the code reads from a merged options object.\<close>

record config =
  outputPath :: "string option"
  outputDir :: "string option"
  createTimestamp :: bool
  filename :: "string option"
  encoding :: string
  prettify :: bool
  includeMetadata :: bool
  dateFormat :: string
  delimiter :: string
  includeHeaders :: bool
  quoteStrings :: bool
  escapeQuotes :: bool
  nullValue :: string
  flattenObjects :: bool
  maxDepth :: int

text \<open>The empty options object: every read gives a falsy value. The strategies never
  read a CSV or JSON option from it, since their defaults set each of them.\<close>

definition no_options :: config where
  "no_options =
     \<lparr>outputPath = None, outputDir = None, createTimestamp = False, filename = None,
      encoding = [], prettify = False, includeMetadata = False, dateFormat = [],
      delimiter = [], includeHeaders = False, quoteStrings = False, escapeQuotes = False,
      nullValue = [], flattenObjects = False, maxDepth = 0\<rparr>"

fun apply_setting :: "config \<Rightarrow> setting \<Rightarrow> config" where
  "apply_setting c (OutputPath v) = c\<lparr>outputPath := v\<rparr>"
| "apply_setting c (OutputDir v) = c\<lparr>outputDir := v\<rparr>"
| "apply_setting c (CreateTimestamp v) = c\<lparr>createTimestamp := v\<rparr>"
| "apply_setting c (Filename v) = c\<lparr>filename := v\<rparr>"
| "apply_setting c (Encoding v) = c\<lparr>encoding := v\<rparr>"
| "apply_setting c (Prettify v) = c\<lparr>prettify := v\<rparr>"
| "apply_setting c (IncludeMetadata v) = c\<lparr>includeMetadata := v\<rparr>"
| "apply_setting c (DateFormat v) = c\<lparr>dateFormat := v\<rparr>"
| "apply_setting c (Delimiter v) = c\<lparr>delimiter := v\<rparr>"
| "apply_setting c (IncludeHeaders v) = c\<lparr>includeHeaders := v\<rparr>"
| "apply_setting c (QuoteStrings v) = c\<lparr>quoteStrings := v\<rparr>"
| "apply_setting c (EscapeQuotes v) = c\<lparr>escapeQuotes := v\<rparr>"
| "apply_setting c (NullValue v) = c\<lparr>nullValue := v\<rparr>"
| "apply_setting c (FlattenObjects v) = c\<lparr>flattenObjects := v\<rparr>"
| "apply_setting c (MaxDepth v) = c\<lparr>maxDepth := v\<rparr>"

definition read_options :: "setting list \<Rightarrow> config" where
  "read_options settings = foldl apply_setting no_options settings"

text \<open>Truthiness of a string-or-null option (\<open>config.outputPath\<close>, \<open>options.filename\<close>).\<close>

fun given :: "string option \<Rightarrow> bool" where
  "given None = False"
| "given (Some s) = (s \<noteq> [])"

text \<open>\<open>ExportStrategy.getDefaultOptions\<close> and its two overrides.\<close>

definition ExportStrategy_getDefaultOptions :: "setting list" where
  "ExportStrategy_getDefaultOptions = [OutputPath None, Encoding ''utf8'']"

definition JsonExportStrategy_getDefaultOptions :: "setting list" where
  "JsonExportStrategy_getDefaultOptions =
     ExportStrategy_getDefaultOptions @ [Prettify True, IncludeMetadata True, DateFormat ''iso'']"

definition CsvExportStrategy_getDefaultOptions :: "setting list" where
  "CsvExportStrategy_getDefaultOptions =
     ExportStrategy_getDefaultOptions @
       [Delimiter '','', IncludeHeaders True, QuoteStrings True, EscapeQuotes True,
        DateFormat ''iso'', NullValue [], FlattenObjects True, MaxDepth 3]"

section \<open>The CSV strategy\<close>

text \<open>The last part of \<open>formatCsvValue\<close>, on the text of a scalar.\<close>

definition format_scalar :: "string \<Rightarrow> config \<Rightarrow> string" where
  "format_scalar s options =
     (let stringValue = (if escapeQuotes options \<and> str_includes s [dquote]
                         then double_quotes s else s)
      in if quoteStrings options \<and>
            (str_includes stringValue (delimiter options) \<or> str_includes stringValue [dquote] \<or>
             str_includes stringValue [newline] \<or> str_includes stringValue [carriage_return])
         then [dquote] @ stringValue @ [dquote]
         else stringValue)"

fun formatCsvValue :: "jsval \<Rightarrow> config \<Rightarrow> string" where
  "formatCsvValue JNull options = nullValue options"
| "formatCsvValue JUndefined options = nullValue options"
| "formatCsvValue (JDate isoText t) options = (if dateFormat options = ''iso'' then isoText else t)"
| "formatCsvValue (JArr xs) options = [dquote] @ array_join xs ''; '' @ [dquote]"
| "formatCsvValue (JObj kvs) options =
     [dquote] @ template_text (JSON_stringify (JObj kvs) 0) @ [dquote]"
| "formatCsvValue v options = format_scalar (to_string v) options"

definition formatCsvRow :: "string list \<Rightarrow> config \<Rightarrow> string" where
  "formatCsvRow values options = join (delimiter options) values"

text \<open>\<open>CsvExportStrategy.transform\<close>: always an array.\<close>

definition CsvExportStrategy_transform :: "jsval \<Rightarrow> config \<Rightarrow> jsval" where
  "CsvExportStrategy_transform data options =
     (let records = (case data of JArr xs \<Rightarrow> xs | _ \<Rightarrow> [data])
      in JArr (if flattenObjects options
               then map (\<lambda>record. flattenObject record [] (maxDepth options) 0) records
               else records))"

text \<open>The \<open>Set\<close> of header names keeps insertion order and ignores a second insertion.\<close>

definition set_add :: "string list \<Rightarrow> string \<Rightarrow> string list" where
  "set_add s k = (if k \<in> set s then s else s @ [k])"

definition Object_keys :: "jsval \<Rightarrow> string list" where
  "Object_keys obj = map fst (own_entries obj)"

text \<open>The body of the first \<open>data.forEach\<close>, and the loop: the keys of every element
  that is a non-null object are added to \<open>allKeys\<close>.\<close>

definition add_keys :: "string list \<Rightarrow> jsval \<Rightarrow> string list" where
  "add_keys allKeys obj =
     (if truthy obj \<and> typeof obj = ''object''
      then foldl set_add allKeys (Object_keys obj)
      else allKeys)"

definition collect_keys :: "jsval list \<Rightarrow> string list" where
  "collect_keys data = foldl add_keys [] data"





text \<open>\<open>obj[header]\<close> on any value: reading a property of \<open>null\<close> or \<open>undefined\<close>
  throws, an array or a string has its indices and its \<open>length\<close>.\<close>

fun get_prop :: "jsval \<Rightarrow> string \<Rightarrow> error + jsval" where
  "get_prop JUndefined k =
     Inl (TypeError (''Cannot read properties of undefined (reading '' @ [CHR 0x27] @ k @ [CHR 0x27] @ '')''))"
| "get_prop JNull k =
     Inl (TypeError (''Cannot read properties of null (reading '' @ [CHR 0x27] @ k @ [CHR 0x27] @ '')''))"
| "get_prop (JObj kvs) k = Inr (obj_get kvs k)"
| "get_prop (JArr xs) k =
     Inr (if k = ''length'' then JNum (int (length xs)) else obj_get (own_entries (JArr xs)) k)"
| "get_prop (JStr s) k =
     Inr (if k = ''length'' then JNum (int (length s)) else obj_get (own_entries (JStr s)) k)"
| "get_prop v k = Inr JUndefined"

text \<open>\<open>headers.map((header) => this.formatCsvValue(obj[header], options))\<close>.\<close>

fun row_data :: "jsval \<Rightarrow> string list \<Rightarrow> config \<Rightarrow> error + string list" where
  "row_data obj [] options = Inr []"
| "row_data obj (header # headers) options =
     (case get_prop obj header of
        Inl e \<Rightarrow> Inl e
      | Inr v \<Rightarrow>
          (case row_data obj headers options of
             Inl e \<Rightarrow> Inl e
           | Inr cells \<Rightarrow> Inr (formatCsvValue v options # cells)))"

text \<open>The second \<open>data.forEach\<close>: one formatted row per element.\<close>

fun data_rows :: "jsval list \<Rightarrow> string list \<Rightarrow> config \<Rightarrow> error + string list" where
  "data_rows [] headers options = Inr []"
| "data_rows (obj # rest) headers options =
     (case row_data obj headers options of
        Inl e \<Rightarrow> Inl e
      | Inr rowData \<Rightarrow>
          (case data_rows rest headers options of
             Inl e \<Rightarrow> Inl e
           | Inr rows \<Rightarrow> Inr (formatCsvRow rowData options # rows)))"

definition CsvExportStrategy_generateContent :: "jsval \<Rightarrow> config \<Rightarrow> error + string" where
  "CsvExportStrategy_generateContent data options =
     (case data of
        JArr xs \<Rightarrow>
          if xs = [] then Inr []
          else
            (let headers = collect_keys xs;
                 rows = (if includeHeaders options then [formatCsvRow headers options] else [])
             in case data_rows xs headers options of
                  Inl e \<Rightarrow> Inl e
                | Inr dataRows \<Rightarrow> Inr (join [newline] (rows @ dataRows)))
      | _ \<Rightarrow> Inr [])"

text \<open>The \<open>rows\<close> array of \<open>generateContent\<close> at the point where it is joined; no row
  at all when the function returns early.\<close>

definition emitted_rows :: "jsval \<Rightarrow> config \<Rightarrow> error + string list" where
  "emitted_rows data options =
     (case data of
        JArr xs \<Rightarrow>
          if xs = [] then Inr []
          else
            (let headers = collect_keys xs;
                 rows = (if includeHeaders options then [formatCsvRow headers options] else [])
             in case data_rows xs headers options of
                  Inl e \<Rightarrow> Inl e
                | Inr dataRows \<Rightarrow> Inr (rows @ dataRows))
      | _ \<Rightarrow> Inr [])"

section \<open>The JSON strategy\<close>

text \<open>\<open>JsonExportStrategy.validate\<close>: the shared check, then a trial
  \<open>JSON.stringify(data)\<close>. It throws only on a cyclic structure or a \<open>BigInt\<close>, which
  the values modelled here cannot be, so the second check always passes.\<close>

definition JsonExportStrategy_validate :: "jsval \<Rightarrow> error + unit" where
  "JsonExportStrategy_validate data =
     (case ExportStrategy_validate data of
        Inl e \<Rightarrow> Inl e
      | Inr u \<Rightarrow> (case JSON_stringify data 0 of _ \<Rightarrow> Inr ()))"

text \<open>\<open>JsonExportStrategy.transform\<close>. The first argument is the reading of the clock,
  \<open>new Date().toISOString()\<close>.\<close>

definition JsonExportStrategy_transform :: "string \<Rightarrow> jsval \<Rightarrow> config \<Rightarrow> jsval" where
  "JsonExportStrategy_transform exportedAt data options =
     (let transformedData = (if isArray data then data else JObj (own_entries data))
      in if includeMetadata options
         then
           (let metadata =
                  JObj [(''exportedAt'', JStr exportedAt),
                        (''format'', JStr ''json''),
                        (''recordCount'',
                           JNum (case data of JArr xs \<Rightarrow> int (length xs) | _ \<Rightarrow> 1)),
                        (''exporter'', JStr ''DataExporter v1.0.0'')]
            in if isArray transformedData
               then JObj [(''metadata'', metadata), (''data'', transformedData)]
               else JObj (obj_set ''metadata'' metadata (own_entries transformedData)))
         else transformedData)"

text \<open>\<open>JsonExportStrategy.generateContent\<close>; the result is \<open>None\<close> when
  \<open>JSON.stringify\<close> returns \<open>undefined\<close>.\<close>

definition JsonExportStrategy_generateContent :: "jsval \<Rightarrow> config \<Rightarrow> error + string option" where
  "JsonExportStrategy_generateContent data options =
     Inr (if prettify options then JSON_stringify data 2 else JSON_stringify data 0)"

section \<open>The template method\<close>

text \<open>The world outside: the clock, the file system (the files written so far, and for
  each path whether writing it fails and with which message), and \<open>path.resolve\<close>.\<close>

record world =
  clock :: string
  files :: "string \<Rightarrow> string option"
  write_failure :: "string \<Rightarrow> string option"
  resolve :: "string \<Rightarrow> string \<Rightarrow> string"

text \<open>\<open>ExportStrategy.saveToFile\<close>. Content \<open>undefined\<close> is refused by
  \<open>fs.writeFile\<close>.\<close>

definition saveToFile :: "string option \<Rightarrow> string \<Rightarrow> world \<Rightarrow> (error + unit) \<times> world" where
  "saveToFile content path w =
     (case write_failure w path of
        Some msg \<Rightarrow> (Inl (FileSystemError (''Failed to save file: '' @ msg)), w)
      | None \<Rightarrow>
          (case content of
             None \<Rightarrow>
               (Inl (FileSystemError
                  (''Failed to save file: The data argument must be of type string'')), w)
           | Some text \<Rightarrow> (Inr (), w\<lparr>files := (files w)(path \<mapsto> text)\<rparr>)))"

text \<open>What \<open>export\<close> returns: the content, or the path it was saved to.\<close>

datatype export_result = Content string | NoContent | SavedTo string

text \<open>The end of \<open>ExportStrategy.export\<close>: with a truthy \<open>config.outputPath\<close>, save and
  return the path; otherwise return the content.\<close>

fun returned :: "string option \<Rightarrow> export_result" where
  "returned None = NoContent"
| "returned (Some text) = Content text"

definition return_or_save ::
  "string option \<Rightarrow> config \<Rightarrow> world \<Rightarrow> (error + export_result) \<times> world" where
  "return_or_save content config w =
     (case outputPath config of
        None \<Rightarrow> (Inr (returned content), w)
      | Some path \<Rightarrow>
          if path = [] then (Inr (returned content), w)
          else
            (case saveToFile content path w of
               (Inl e, w') \<Rightarrow> (Inl e, w')
             | (Inr u, w') \<Rightarrow> (Inr (SavedTo path), w')))"

text \<open>\<open>ExportStrategy.export\<close> on an instance of each strategy; \<open>this_options\<close> is the
  instance's \<open>this.options\<close>.\<close>

definition JsonExportStrategy_export ::
  "setting list \<Rightarrow> jsval \<Rightarrow> setting list \<Rightarrow> world \<Rightarrow> (error + export_result) \<times> world" where
  "JsonExportStrategy_export this_options data options w =
     (let config = read_options (this_options @ options)
      in case JsonExportStrategy_validate data of
           Inl e \<Rightarrow> (Inl e, w)
         | Inr u \<Rightarrow>
             (let transformedData = JsonExportStrategy_transform (clock w) data config
              in case JsonExportStrategy_generateContent transformedData config of
                   Inl e \<Rightarrow> (Inl e, w)
                 | Inr content \<Rightarrow> return_or_save content config w))"

definition CsvExportStrategy_export ::
  "setting list \<Rightarrow> jsval \<Rightarrow> setting list \<Rightarrow> world \<Rightarrow> (error + export_result) \<times> world" where
  "CsvExportStrategy_export this_options data options w =
     (let config = read_options (this_options @ options)
      in case CsvExportStrategy_validate data of
           Inl e \<Rightarrow> (Inl e, w)
         | Inr u \<Rightarrow>
             (let transformedData = CsvExportStrategy_transform data config
              in case CsvExportStrategy_generateContent transformedData config of
                   Inl e \<Rightarrow> (Inl e, w)
                 | Inr content \<Rightarrow> return_or_save (Some content) config w))"

section \<open>The strategy factory\<close>

text \<open>The value of \<open>strategyClass.prototype\<close>: \<open>undefined\<close> (an arrow function has
  none), or an object, given by the names of the classes whose prototype objects are on
  its prototype chain.\<close>

datatype prototype = NoPrototype | PrototypeObject "string list"

text \<open>A strategy class: one of the two of the module, or a class of the caller's, given
  by its name, its \<open>prototype\<close>, and what \<open>new C(options).export(data, config)\<close> does.\<close>

datatype strategy_class =
    JsonExportStrategy
  | CsvExportStrategy
  | CallerClass string prototype
      "setting list \<Rightarrow> jsval \<Rightarrow> setting list \<Rightarrow> world \<Rightarrow> (error + export_result) \<times> world"

fun class_name :: "strategy_class \<Rightarrow> string" where
  "class_name JsonExportStrategy = ''JsonExportStrategy''"
| "class_name CsvExportStrategy = ''CsvExportStrategy''"
| "class_name (CallerClass n p b) = n"

fun class_prototype :: "strategy_class \<Rightarrow> prototype" where
  "class_prototype JsonExportStrategy = PrototypeObject [''ExportStrategy'', ''Object'']"
| "class_prototype CsvExportStrategy = PrototypeObject [''ExportStrategy'', ''Object'']"
| "class_prototype (CallerClass n p b) = p"

text \<open>The operands of \<open>instanceof\<close>: a primitive boolean is never an instance; an object
  is one when the prototype of \<open>ExportStrategy\<close> is on its chain.\<close>

datatype operand = Primitive bool | Object prototype

fun js_not :: "prototype \<Rightarrow> operand" where
  "js_not NoPrototype = Primitive True"
| "js_not (PrototypeObject chain) = Primitive False"

fun instanceof_ExportStrategy :: "operand \<Rightarrow> bool" where
  "instanceof_ExportStrategy (Primitive b) = False"
| "instanceof_ExportStrategy (Object NoPrototype) = False"
| "instanceof_ExportStrategy (Object (PrototypeObject chain)) = (''ExportStrategy'' \<in> set chain)"

text \<open>A class extends \<open>ExportStrategy\<close> when its prototype is an instance of it.\<close>

definition extends_ExportStrategy :: "strategy_class \<Rightarrow> bool" where
  "extends_ExportStrategy c = instanceof_ExportStrategy (Object (class_prototype c))"

text \<open>\<open>ExportStrategyFactory.register\<close> on the factory's \<open>strategies\<close> map, a \<open>Map\<close>
  in insertion order. The test is \<open>!strategyClass.prototype instanceof ExportStrategy\<close>,
  in which \<open>!\<close> binds tighter than \<open>instanceof\<close>.\<close>

definition register ::
  "string \<Rightarrow> strategy_class \<Rightarrow> (string \<times> strategy_class) list
    \<Rightarrow> error + (string \<times> strategy_class) list" where
  "register format strategyClass strategies =
     (if instanceof_ExportStrategy (js_not (class_prototype strategyClass))
      then Inl (Error (class_name strategyClass @ '' must extend ExportStrategy''))
      else Inr (obj_set (toLowerCase format) strategyClass strategies))"

text \<open>The constructor of the factory: an empty map, then \<open>registerDefaultStrategies\<close>.\<close>

definition registerDefaultStrategies ::
  "(string \<times> strategy_class) list \<Rightarrow> error + (string \<times> strategy_class) list" where
  "registerDefaultStrategies strategies =
     (case register ''json'' JsonExportStrategy strategies of
        Inl e \<Rightarrow> Inl e
      | Inr strategies' \<Rightarrow> register ''csv'' CsvExportStrategy strategies')"

definition ExportStrategyFactory :: "error + (string \<times> strategy_class) list" where
  "ExportStrategyFactory = registerDefaultStrategies []"

text \<open>A strategy instance: its class and its \<open>this.options\<close>, the defaults of the class
  overridden by the constructor's argument.\<close>

datatype strategy = Strategy strategy_class "setting list"

fun construct :: "strategy_class \<Rightarrow> setting list \<Rightarrow> strategy" where
  "construct JsonExportStrategy options =
     Strategy JsonExportStrategy (JsonExportStrategy_getDefaultOptions @ options)"
| "construct CsvExportStrategy options =
     Strategy CsvExportStrategy (CsvExportStrategy_getDefaultOptions @ options)"
| "construct (CallerClass n p b) options = Strategy (CallerClass n p b) options"

definition create ::
  "(string \<times> strategy_class) list \<Rightarrow> string \<Rightarrow> setting list \<Rightarrow> error + strategy" where
  "create strategies format options =
     (case map_of strategies (toLowerCase format) of
        None \<Rightarrow> Inl (DataExportError (''Unsupported export format: '' @ format))
      | Some StrategyClass \<Rightarrow> Inr (construct StrategyClass options))"

definition getAvailableFormats :: "(string \<times> strategy_class) list \<Rightarrow> string list" where
  "getAvailableFormats strategies = map fst strategies"

definition isFormatSupported :: "(string \<times> strategy_class) list \<Rightarrow> string \<Rightarrow> bool" where
  "isFormatSupported strategies format = (map_of strategies (toLowerCase format) \<noteq> None)"

fun strategy_export ::
  "strategy \<Rightarrow> jsval \<Rightarrow> setting list \<Rightarrow> world \<Rightarrow> (error + export_result) \<times> world" where
  "strategy_export (Strategy JsonExportStrategy this_options) data options w =
     JsonExportStrategy_export this_options data options w"
| "strategy_export (Strategy CsvExportStrategy this_options) data options w =
     CsvExportStrategy_export this_options data options w"
| "strategy_export (Strategy (CallerClass n p behaviour) this_options) data options w =
     behaviour this_options data options w"

section \<open>The facade\<close>

record exporter =
  factory :: "(string \<times> strategy_class) list"
  defaultOptions :: "setting list"

text \<open>The constructor of \<open>DataExporter\<close>.\<close>

definition DataExporter :: "setting list \<Rightarrow> error + exporter" where
  "DataExporter options =
     (case ExportStrategyFactory of
        Inl e \<Rightarrow> Inl e
      | Inr strategies \<Rightarrow>
          Inr \<lparr>factory = strategies,
               defaultOptions = [OutputDir (Some ''./exports''), CreateTimestamp True] @ options\<rparr>)"

definition generateOutputPath :: "string \<Rightarrow> config \<Rightarrow> world \<Rightarrow> string" where
  "generateOutputPath format options w =
     (let timestamp =
            (if createTimestamp options
             then map (\<lambda>c. if c = CHR '':'' \<or> c = CHR ''.'' then CHR ''-'' else c) (clock w)
             else []);
          generated = ''export'' @ (if timestamp \<noteq> [] then ''-'' @ timestamp else []) @ ''.'' @ format;
          name = (case filename options of
                    None \<Rightarrow> generated
                  | Some f \<Rightarrow> if f = [] then generated else f)
      in resolve w (case outputDir options of None \<Rightarrow> [] | Some d \<Rightarrow> d) name)"

text \<open>\<open>DataExporter.export\<close>.\<close>

definition DataExporter_export ::
  "exporter \<Rightarrow> jsval \<Rightarrow> string \<Rightarrow> setting list \<Rightarrow> world \<Rightarrow> (error + export_result) \<times> world" where
  "DataExporter_export this data format options w =
     (let merged = defaultOptions this @ options;
          config =
            (if \<not> given (outputPath (read_options merged)) \<and> given (outputDir (read_options merged))
             then merged @ [OutputPath (Some (generateOutputPath format (read_options merged) w))]
             else merged)
      in case create (factory this) format config of
           Inl e \<Rightarrow> (Inl e, w)
         | Inr strategy \<Rightarrow> strategy_export strategy data config w)"

definition toJSON ::
  "exporter \<Rightarrow> jsval \<Rightarrow> setting list \<Rightarrow> world \<Rightarrow> (error + export_result) \<times> world" where
  "toJSON this data options w = DataExporter_export this data ''json'' options w"

definition toCSV ::
  "exporter \<Rightarrow> jsval \<Rightarrow> setting list \<Rightarrow> world \<Rightarrow> (error + export_result) \<times> world" where
  "toCSV this data options w = DataExporter_export this data ''csv'' options w"

text \<open>One entry of the object that \<open>toMultiple\<close> returns: what \<open>export\<close> returned, or
  \<open>{ error: error.message }\<close>.\<close>

datatype outcome = Exported export_result | Failed string

text \<open>The \<open>try\<close>/\<open>catch\<close> in the loop of \<open>toMultiple\<close>.\<close>

fun outcome_of :: "error + export_result \<Rightarrow> outcome" where
  "outcome_of (Inr r) = Exported r"
| "outcome_of (Inl e) = Failed (message e)"

text \<open>\<open>DataExporter.toMultiple\<close>. Its \<open>options\<close> argument is given in two parts: the
  settings, and the members named after a format (\<open>options[format]\<close>). The loop carries
  the \<open>results\<close> object and the world.\<close>

definition formatOptions :: "setting list \<Rightarrow> (string \<times> setting list) list \<Rightarrow> string \<Rightarrow> setting list" where
  "formatOptions options per_format format =
     options @ (case map_of per_format format of None \<Rightarrow> [] | Some sub \<Rightarrow> sub)"

fun toMultiple_loop ::
  "exporter \<Rightarrow> jsval \<Rightarrow> string list \<Rightarrow> setting list \<Rightarrow> (string \<times> setting list) list
    \<Rightarrow> (string \<times> outcome) list \<Rightarrow> world \<Rightarrow> (string \<times> outcome) list \<times> world" where
  "toMultiple_loop this data [] options per_format results w = (results, w)"
| "toMultiple_loop this data (format # formats) options per_format results w =
     (case DataExporter_export this data format (formatOptions options per_format format) w of
        (result, w') \<Rightarrow>
          toMultiple_loop this data formats options per_format
            (obj_set format (outcome_of result) results) w')"

definition toMultiple ::
  "exporter \<Rightarrow> jsval \<Rightarrow> string list \<Rightarrow> setting list \<Rightarrow> (string \<times> setting list) list
    \<Rightarrow> world \<Rightarrow> (string \<times> outcome) list \<times> world" where
  "toMultiple this data formats options per_format w =
     toMultiple_loop this data formats options per_format [] w"

definition registerStrategy :: "exporter \<Rightarrow> string \<Rightarrow> strategy_class \<Rightarrow> error + exporter" where
  "registerStrategy this format strategyClass =
     (case register format strategyClass (factory this) of
        Inl e \<Rightarrow> Inl e
      | Inr strategies \<Rightarrow> Inr (this\<lparr>factory := strategies\<rparr>))"

definition getSupportedFormats :: "exporter \<Rightarrow> string list" where
  "getSupportedFormats this = getAvailableFormats (factory this)"

section \<open>Basic facts\<close>

lemma map_of_obj_set: "map_of (obj_set k v kvs) k = Some v"
  by (induction kvs) auto

lemma map_of_obj_set_other: "k' \<noteq> k \<Longrightarrow> map_of (obj_set k v kvs) k' = map_of kvs k'"
  by (induction kvs) auto

lemma read_options_snoc: "read_options (xs @ [x]) = apply_setting (read_options xs) x"
  by (simp add: read_options_def)

lemma csv_defaults:
  "read_options CsvExportStrategy_getDefaultOptions =
     \<lparr>outputPath = None, outputDir = None, createTimestamp = False, filename = None,
      encoding = ''utf8'', prettify = False, includeMetadata = False, dateFormat = ''iso'',
      delimiter = '','', includeHeaders = True, quoteStrings = True, escapeQuotes = True,
      nullValue = [], flattenObjects = True, maxDepth = 3\<rparr>"
  by (simp add: CsvExportStrategy_getDefaultOptions_def ExportStrategy_getDefaultOptions_def
      read_options_def no_options_def)


section \<open>Registration of strategies\<close>

text \<open>The guard of \<open>register\<close> tests a boolean with \<open>instanceof\<close>, so it is never true:
  no class is ever refused.\<close>

lemma register_never_fails:
  "register format strategyClass strategies =
     Inr (obj_set (toLowerCase format) strategyClass strategies)"
  by (cases "class_prototype strategyClass") (simp_all add: register_def)

lemma toLowerCase_XML: "toLowerCase ''XML'' = ''xml''"
  by code_simp

text \<open>
  C1. \<open>register\<close> should fail for a constructor that does not extend \<open>ExportStrategy\<close>.
  It does not: a class whose prototype chain holds only \<open>Object\<close> is stored under the
  lowercased identifier like any other, and a later lookup of the identifier finds it.
\<close>

theorem register_accepts_class_not_extending_ExportStrategy:
  "\<not> extends_ExportStrategy (CallerClass ''NotAStrategy'' (PrototypeObject [''Object'']) b)
   \<and> register ''XML'' (CallerClass ''NotAStrategy'' (PrototypeObject [''Object'']) b) strategies
       = Inr (obj_set ''xml'' (CallerClass ''NotAStrategy'' (PrototypeObject [''Object'']) b)
                strategies)
   \<and> map_of (obj_set ''xml'' (CallerClass ''NotAStrategy'' (PrototypeObject [''Object'']) b)
                strategies) ''xml''
       = Some (CallerClass ''NotAStrategy'' (PrototypeObject [''Object'']) b)"
  by (simp add: register_never_fails extends_ExportStrategy_def toLowerCase_XML map_of_obj_set)

section \<open>Validation of the dataset\<close>

lemma csv_validate_array: "CsvExportStrategy_validate (JArr xs) = Inr ()"
  by (simp add: CsvExportStrategy_validate_def ExportStrategy_validate_def)

lemma csv_validate_scalar:
  "\<exists>e. CsvExportStrategy_validate (JBool b) = Inl e"
  "\<exists>e. CsvExportStrategy_validate (JNum n) = Inl e"
  "\<exists>e. CsvExportStrategy_validate (JStr s) = Inl e"
  by (simp_all add: CsvExportStrategy_validate_def ExportStrategy_validate_def)

text \<open>
  C2. The CSV validation should fail for a sequence of scalars. It does not: the array
  \<open>[1, 2, 3]\<close> is neither a record nor a sequence of records, passes
  \<open>CsvExportStrategy.validate\<close>, and is exported, with the default options, as three
  line breaks (an empty header row and three empty rows).
\<close>

theorem csv_validate_accepts_array_of_scalars:
  "\<not> is_record_or_records (JArr [JNum 1, JNum 2, JNum 3])
   \<and> CsvExportStrategy_validate (JArr [JNum 1, JNum 2, JNum 3]) = Inr ()
   \<and> CsvExportStrategy_export CsvExportStrategy_getDefaultOptions
         (JArr [JNum 1, JNum 2, JNum 3]) [] w
       = (Inr (Content [newline, newline, newline]), w)"
  by (simp add: CsvExportStrategy_validate_def ExportStrategy_validate_def
      CsvExportStrategy_export_def csv_defaults CsvExportStrategy_transform_def
      flattenObject.simps CsvExportStrategy_generateContent_def collect_keys_def add_keys_def
      formatCsvRow_def return_or_save_def)

text \<open>
  C4, as stated, fails: the shared validation rejects the number \<open>0\<close>, which is neither
  \<open>null\<close> nor \<open>undefined\<close>, with the message of the nullness check.
\<close>

theorem shared_validate_rejects_zero:
  "JNum 0 \<noteq> JNull \<and> JNum 0 \<noteq> JUndefined
   \<and> ExportStrategy_validate (JNum 0)
       = Inl (DataExportError ''Data cannot be null or undefined'')"
  by (simp add: ExportStrategy_validate_def)

text \<open>
  C4, amended. The shared validation passes exactly the truthy values: it fails, with a
  \<open>DataExportError\<close>, exactly for \<open>undefined\<close>, \<open>null\<close>, \<open>false\<close>, \<open>0\<close> and the
  empty string. No record and no sequence, even an empty one, is rejected by it; and
  the export of both strategies fails with that error for \<open>null\<close> and for
  \<open>undefined\<close>, whatever the options.
\<close>

theorem shared_validate_rejects_exactly_falsy:
  "(ExportStrategy_validate data = Inr ()) = truthy data
   \<and> (ExportStrategy_validate data = Inl (DataExportError ''Data cannot be null or undefined''))
       = (data \<in> {JUndefined, JNull, JBool False, JNum 0, JStr []})
   \<and> ExportStrategy_validate (JObj kvs) = Inr ()
   \<and> ExportStrategy_validate (JArr xs) = Inr ()
   \<and> JsonExportStrategy_export this_options JNull options w
       = (Inl (DataExportError ''Data cannot be null or undefined''), w)
   \<and> JsonExportStrategy_export this_options JUndefined options w
       = (Inl (DataExportError ''Data cannot be null or undefined''), w)
   \<and> CsvExportStrategy_export this_options JNull options w
       = (Inl (DataExportError ''Data cannot be null or undefined''), w)
   \<and> CsvExportStrategy_export this_options JUndefined options w
       = (Inl (DataExportError ''Data cannot be null or undefined''), w)"
  by (cases data) (auto simp: ExportStrategy_validate_def JsonExportStrategy_export_def
      CsvExportStrategy_export_def JsonExportStrategy_validate_def CsvExportStrategy_validate_def)

section \<open>The CSV serialization\<close>

subsection \<open>Order of first appearance\<close>














lemma show_int_1: "show_int 1 = ''1''"
  by code_simp


subsection \<open>Rows and columns\<close>






text \<open>
  C6. The CSV serialization of the empty sequence is the empty string and no row is
  emitted, whatever the options, so also with headers asked for; and the export of the
  empty sequence, with no output path, returns the empty string as its content.
\<close>

lemma csv_transform_empty: "CsvExportStrategy_transform (JArr []) options = JArr []"
  by (simp add: CsvExportStrategy_transform_def)

lemma csv_generate_empty: "CsvExportStrategy_generateContent (JArr []) options = Inr []"
  by (simp add: CsvExportStrategy_generateContent_def)

lemma csv_export_empty:
  "outputPath (read_options (this_options @ settings)) = None
    \<Longrightarrow> CsvExportStrategy_export this_options (JArr []) settings w = (Inr (Content []), w)"
  by (simp add: CsvExportStrategy_export_def csv_validate_array csv_transform_empty
      csv_generate_empty return_or_save_def Let_def)

theorem csv_empty_sequence_gives_empty_string:
  "CsvExportStrategy_generateContent (JArr []) options = Inr []
   \<and> emitted_rows (JArr []) (options\<lparr>includeHeaders := True\<rparr>) = Inr []
   \<and> CsvExportStrategy_export this_options (JArr []) (settings @ [OutputPath None]) w
       = (Inr (Content []), w)
   \<and> CsvExportStrategy_export this_options (JArr [])
         (settings @ [IncludeHeaders True, OutputPath None]) w
       = (Inr (Content []), w)"
  by (simp add: csv_generate_empty emitted_rows_def csv_export_empty read_options_def)

subsection \<open>The header row\<close>

lemma str_includes_single: "str_includes s [c] = (c \<in> set s)"
  by (induction s) auto

lemma double_quotes_id: "dquote \<notin> set s \<Longrightarrow> double_quotes s = s"
  by (induction s) (auto simp: double_quotes_def)

lemma set_double_quotes: "set (double_quotes s) = set s"
  by (induction s) (auto simp: double_quotes_def)

lemma length_double_quotes: "length s \<le> length (double_quotes s)"
  by (induction s) (auto simp: double_quotes_def)

lemma format_scalar_quoted:
  assumes "quoteStrings options"
    and "str_includes s (delimiter options) \<or> str_includes s [dquote] \<or>
         str_includes s [newline] \<or> str_includes s [carriage_return]"
  shows "format_scalar s options
           = [dquote] @ (if escapeQuotes options then double_quotes s else s) @ [dquote]"
proof (cases "dquote \<in> set s")
  case True
  then show ?thesis using assms(1)
    by (simp add: format_scalar_def str_includes_single set_double_quotes)
next
  case False
  then show ?thesis using assms
    by (simp add: format_scalar_def str_includes_single double_quotes_id)
qed

text \<open>
  C10. With headers asked for, the first row of the content is the header keys
  themselves joined by the delimiter. A key that contains the delimiter, a quote
  character or a line break is therefore emitted as it is, whereas the same text as a
  data cell is, with \<open>quoteStrings\<close> set, wrapped in quotes (after doubling its quotes
  when \<open>escapeQuotes\<close> is set), and so differs from the key.
\<close>

theorem csv_header_row_is_not_formatted:
  assumes "includeHeaders options"
    and "data_rows (r # rs) (collect_keys (r # rs)) options = Inr rows"
    and "key \<in> set (collect_keys (r # rs))"
    and "quoteStrings options"
    and "str_includes key (delimiter options) \<or> str_includes key [dquote] \<or>
         str_includes key [newline] \<or> str_includes key [carriage_return]"
  shows "CsvExportStrategy_generateContent (JArr (r # rs)) options
           = Inr (join [newline] (join (delimiter options) (collect_keys (r # rs)) # rows))
         \<and> formatCsvValue (JStr key) options
           = [dquote] @ (if escapeQuotes options then double_quotes key else key) @ [dquote]
         \<and> formatCsvValue (JStr key) options \<noteq> key"
proof -
  have a: "CsvExportStrategy_generateContent (JArr (r # rs)) options
           = Inr (join [newline] (join (delimiter options) (collect_keys (r # rs)) # rows))"
    using assms(1,2) by (simp add: CsvExportStrategy_generateContent_def formatCsvRow_def)
  have b: "formatCsvValue (JStr key) options
           = [dquote] @ (if escapeQuotes options then double_quotes key else key) @ [dquote]"
    using format_scalar_quoted [OF assms(4,5)] by simp
  have "length (formatCsvValue (JStr key) options) \<noteq> length key"
    unfolding b using length_double_quotes [of key] by simp
  then have c: "formatCsvValue (JStr key) options \<noteq> key" by auto
  from a b c show ?thesis by simp
qed

text \<open>The theorem at the record \<open>{"a,b": "x,y"}\<close> under the default options: the
  header \<open>a,b\<close> is bare, the cell \<open>"x,y"\<close> is quoted.\<close>

theorem csv_header_row_is_not_formatted_witness:
  "CsvExportStrategy_generateContent (JArr [JObj [(''a,b'', JStr ''x,y'')]])
       (read_options CsvExportStrategy_getDefaultOptions)
     = Inr (''a,b'' @ [newline] @ [dquote] @ ''x,y'' @ [dquote])
   \<and> formatCsvValue (JStr ''a,b'') (read_options CsvExportStrategy_getDefaultOptions)
     = [dquote] @ ''a,b'' @ [dquote]"
proof -
  let ?r = "JObj [(''a,b'', JStr ''x,y'')]"
  let ?options = "read_options CsvExportStrategy_getDefaultOptions"
  have keys: "collect_keys [?r] = [''a,b'']"
    by (simp add: collect_keys_def add_keys_def Object_keys_def set_add_def)
  have h1: "includeHeaders ?options" by (simp add: csv_defaults)
  have h2: "data_rows [?r] (collect_keys [?r]) ?options = Inr [[dquote] @ ''x,y'' @ [dquote]]"
    by (simp add: keys csv_defaults obj_get_def format_scalar_def double_quotes_def
        formatCsvRow_def)
  have h3: "''a,b'' \<in> set (collect_keys [?r])" by (simp add: keys)
  have h4: "quoteStrings ?options" by (simp add: csv_defaults)
  have h5: "str_includes ''a,b'' (delimiter ?options) \<or> str_includes ''a,b'' [dquote] \<or>
            str_includes ''a,b'' [newline] \<or> str_includes ''a,b'' [carriage_return]"
    by (simp add: csv_defaults)
  from csv_header_row_is_not_formatted [OF h1 h2 h3 h4 h5]
  show ?thesis by (simp add: keys csv_defaults double_quotes_def)
qed

section \<open>The object flattener, facts\<close>

text \<open>What the flattener does as the specification says: an array is returned as it
  is; at or beyond the depth limit, and so always with the limit \<open>0\<close>, the value is
  returned as it is; in the loop, an entry whose value is an array, or any value that
  is not a non-null object, is assigned under its dotted key.\<close>

lemma flattenObject_array: "flattenObject (JArr xs) prefix maxD currentDepth = JArr xs"
  by (simp add: flattenObject.simps)

lemma flattenObject_at_maxDepth:
  "maxD \<le> int currentDepth \<Longrightarrow> flattenObject obj prefix maxD currentDepth = obj"
  by (simp add: flattenObject.simps)

lemma flattenObject_maxDepth_0: "flattenObject obj prefix 0 currentDepth = obj"
  by (simp add: flattenObject.simps)

lemma flatten_entries_array:
  "flatten_entries ((key, JArr xs) # rest) prefix maxD currentDepth flattened
     = flatten_entries rest prefix maxD currentDepth
         (obj_set (if prefix \<noteq> [] then prefix @ ''.'' @ key else key) (JArr xs) flattened)"
  by simp

lemma flatten_entries_terminal:
  "\<not> (truthy v \<and> typeof v = ''object'' \<and> \<not> isArray v) \<Longrightarrow>
   flatten_entries ((key, v) # rest) prefix maxD currentDepth flattened
     = flatten_entries rest prefix maxD currentDepth
         (obj_set (if prefix \<noteq> [] then prefix @ ''.'' @ key else key) v flattened)"
  by (auto simp: Let_def)

text \<open>At the last level before the limit, the entries of a nested object are merged
  under their own names; and a \<open>Date\<close>, which has no entries, leaves nothing behind at
  any depth.\<close>

lemma flatten_entries_at_limit:
  "flatten_entries ((key, JObj kvs) # rest) prefix (int currentDepth + 1) currentDepth flattened
     = flatten_entries rest prefix (int currentDepth + 1) currentDepth
         (obj_assign flattened (JObj kvs))"
  by (simp add: Let_def flattenObject.simps)

lemma flatten_entries_date:
  "flatten_entries ((key, JDate isoText t) # rest) prefix maxD currentDepth flattened
     = flatten_entries rest prefix maxD currentDepth flattened"
  by (simp add: Let_def flattenObject.simps obj_assign_def)

text \<open>
  C7. An array-valued entry should be assigned to its dotted key at every depth. It is
  not at the depth limit: there the nested object is returned unchanged and its entries
  are merged under their own names, so with limit \<open>1\<close> the entry \<open>tags\<close> of \<open>user\<close>
  ends up under \<open>tags\<close>, not \<open>user.tags\<close>, and likewise four levels down with the
  default limit \<open>3\<close>. The flattener also descends into a \<open>Date\<close>, which has no
  entries, so a field holding one disappears.
\<close>

theorem flattenObject_merges_bare_keys_at_maxDepth:
  "flattenObject (JObj [(''user'', JObj [(''name'', JStr ''A''), (''tags'', JArr [JStr ''x''])])])
      [] 1 0
     = JObj [(''name'', JStr ''A''), (''tags'', JArr [JStr ''x''])]
   \<and> flattenObject
       (JObj [(''a'', JObj [(''b'', JObj [(''c'', JObj [(''tags'', JArr [JNum 1])])])])]) [] 3 0
     = JObj [(''tags'', JArr [JNum 1])]
   \<and> flattenObject (JObj [(''id'', JNum 1), (''joinDate'', JDate i t)]) [] 3 0
     = JObj [(''id'', JNum 1)]"
  by (simp add: flattenObject.simps obj_assign_def)

section \<open>The JSON strategy, facts\<close>

lemma filter_obj_set:
  "filter (\<lambda>(k', v'). k' \<noteq> k) (obj_set k v kvs) = filter (\<lambda>(k', v'). k' \<noteq> k) kvs"
  by (induction kvs) auto

text \<open>
  C8. With \<open>includeMetadata\<close> set, the JSON transform wraps a sequence as
  \<open>{metadata, data}\<close>, the record count being the length of the sequence; it sets the
  field \<open>metadata\<close> of (a copy of) a single record, the record count being \<open>1\<close>:
  afterwards the field holds the metadata, whatever it held before, and the other
  fields are as they were. The metadata holds the format name \<open>json\<close> and the exporter
  identifier \<open>DataExporter v1.0.0\<close>.
\<close>

theorem json_transform_adds_metadata:
  "JsonExportStrategy_transform t (JArr xs) (options\<lparr>includeMetadata := True\<rparr>)
     = JObj [(''metadata'',
               JObj [(''exportedAt'', JStr t), (''format'', JStr ''json''),
                     (''recordCount'', JNum (int (length xs))),
                     (''exporter'', JStr ''DataExporter v1.0.0'')]),
             (''data'', JArr xs)]
   \<and> JsonExportStrategy_transform t (JObj kvs) (options\<lparr>includeMetadata := True\<rparr>)
     = JObj (obj_set ''metadata''
               (JObj [(''exportedAt'', JStr t), (''format'', JStr ''json''),
                      (''recordCount'', JNum 1),
                      (''exporter'', JStr ''DataExporter v1.0.0'')]) kvs)
   \<and> obj_get (obj_set ''metadata'' m kvs) ''metadata'' = m
   \<and> filter (\<lambda>(k, v). k \<noteq> ''metadata'') (obj_set ''metadata'' m kvs)
     = filter (\<lambda>(k, v). k \<noteq> ''metadata'') kvs"
  by (simp add: JsonExportStrategy_transform_def obj_get_def map_of_obj_set filter_obj_set)

section \<open>The facade, facts\<close>

lemma toLowerCase_json: "toLowerCase ''json'' = ''json''"
  by code_simp

lemma toLowerCase_csv: "toLowerCase ''csv'' = ''csv''"
  by code_simp

lemma toLowerCase_bogus: "toLowerCase ''bogus'' = ''bogus''"
  by code_simp

lemma DataExporter_default:
  "DataExporter options =
     Inr \<lparr>factory = [(''json'', JsonExportStrategy), (''csv'', CsvExportStrategy)],
          defaultOptions = [OutputDir (Some ''./exports''), CreateTimestamp True] @ options\<rparr>"
  by (simp add: DataExporter_def ExportStrategyFactory_def registerDefaultStrategies_def
      register_never_fails toLowerCase_json toLowerCase_csv)

lemma json_defaults:
  "read_options JsonExportStrategy_getDefaultOptions =
     \<lparr>outputPath = None, outputDir = None, createTimestamp = False, filename = None,
      encoding = ''utf8'', prettify = True, includeMetadata = True, dateFormat = ''iso'',
      delimiter = [], includeHeaders = False, quoteStrings = False, escapeQuotes = False,
      nullValue = [], flattenObjects = False, maxDepth = 0\<rparr>"
  by (simp add: JsonExportStrategy_getDefaultOptions_def ExportStrategy_getDefaultOptions_def
      read_options_def no_options_def)

lemma read_options_append:
  "read_options (xs @ ys) = foldl apply_setting (read_options xs) ys"
  by (simp add: read_options_def)

lemma stringify_example:
  "JSON_stringify (JArr [JObj [(''id'', JNum 1)]]) 0
     = Some (''[{'' @ [dquote] @ ''id'' @ [dquote] @ '':1}]'')"
  by (simp add: JSON_stringify_def json_wrap_def QuoteJSONString_def json_escape_char_def show_int_1)

lemma keys_obj_set: "set (map fst (obj_set k v kvs)) = insert k (set (map fst kvs))"
proof (induction kvs)
  case Nil
  then show ?case by simp
next
  case (Cons a kvs)
  then show ?case by (cases a) auto
qed

lemma toMultiple_loop_append:
  "toMultiple_loop this data (fs @ gs) options per_format results w
     = (case toMultiple_loop this data fs options per_format results w of
          (results', w') \<Rightarrow> toMultiple_loop this data gs options per_format results' w')"
  by (induction fs arbitrary: results w) (auto split: prod.splits)

lemma toMultiple_loop_keys:
  "set (map fst (fst (toMultiple_loop this data fs options per_format results w)))
     = set (map fst results) \<union> set fs"
proof (induction fs arbitrary: results w)
  case Nil
  then show ?case by simp
next
  case (Cons f fs)
  show ?case
    by (cases "DataExporter_export this data f (formatOptions options per_format f) w")
       (simp add: Cons.IH keys_obj_set del: set_map)
qed

lemma toMultiple_loop_other:
  "f \<notin> set gs \<Longrightarrow>
   map_of (fst (toMultiple_loop this data gs options per_format results w)) f = map_of results f"
proof (induction gs arbitrary: results w)
  case Nil
  then show ?case by simp
next
  case (Cons g gs)
  then have "g \<noteq> f" and "f \<notin> set gs" by auto
  then show ?case
    by (cases "DataExporter_export this data g (formatOptions options per_format g) w")
       (simp add: Cons.IH map_of_obj_set_other)
qed

lemma export_unsupported:
  "map_of (factory this) (toLowerCase format) = None \<Longrightarrow>
   DataExporter_export this data format options w
     = (Inl (DataExportError (''Unsupported export format: '' @ format)), w)"
  by (simp add: DataExporter_export_def create_def Let_def)

lemma json_export_in_memory:
  "DataExporter_export
      \<lparr>factory = [(''json'', JsonExportStrategy), (''csv'', CsvExportStrategy)],
       defaultOptions = [OutputDir (Some ''./exports''), CreateTimestamp True]\<rparr>
      (JArr [JObj [(''id'', JNum 1)]]) ''json''
      [OutputDir None, IncludeMetadata False, Prettify False] w
    = (Inr (Content (''[{'' @ [dquote] @ ''id'' @ [dquote] @ '':1}]'')), w)"
  by (simp add: DataExporter_export_def create_def toLowerCase_json Let_def read_options_def
      no_options_def JsonExportStrategy_export_def JsonExportStrategy_getDefaultOptions_def
      ExportStrategy_getDefaultOptions_def JsonExportStrategy_validate_def
      ExportStrategy_validate_def JsonExportStrategy_transform_def
      JsonExportStrategy_generateContent_def stringify_example return_or_save_def)

text \<open>
  C9. \<open>toMultiple\<close> returns an entry for every requested format and for nothing else.
  The entry of a format (at its last occurrence in the request) is the outcome of its
  own export, in the world that the formats before it have left: what the export
  returned, or the message of the error it threw. So a failure of an earlier format
  neither escapes nor keeps a later one from being attempted.
\<close>

theorem toMultiple_reports_each_format:
  assumes "f \<notin> set gs"
  shows "map_of (fst (toMultiple this data (fs @ f # gs) options per_format w)) f
           = Some (outcome_of (fst (DataExporter_export this data f
                      (formatOptions options per_format f)
                      (snd (toMultiple this data fs options per_format w)))))
         \<and> set (map fst (fst (toMultiple this data (fs @ f # gs) options per_format w)))
           = set (fs @ f # gs)"
proof -
  obtain res w' where a: "toMultiple_loop this data fs options per_format [] w = (res, w')"
    by (cases "toMultiple_loop this data fs options per_format [] w")
  obtain r w'' where b: "DataExporter_export this data f (formatOptions options per_format f) w' = (r, w'')"
    by (cases "DataExporter_export this data f (formatOptions options per_format f) w'")
  have "map_of (fst (toMultiple this data (fs @ f # gs) options per_format w)) f
        = map_of (obj_set f (outcome_of r) res) f"
    using assms by (simp add: toMultiple_def toMultiple_loop_append a b toMultiple_loop_other)
  then have first: "map_of (fst (toMultiple this data (fs @ f # gs) options per_format w)) f
           = Some (outcome_of (fst (DataExporter_export this data f
                      (formatOptions options per_format f)
                      (snd (toMultiple this data fs options per_format w)))))"
    by (simp add: map_of_obj_set toMultiple_def a b)
  have second: "set (map fst (fst (toMultiple this data (fs @ f # gs) options per_format w)))
           = set (fs @ f # gs)"
    unfolding toMultiple_def toMultiple_loop_keys by simp
  from first second show ?thesis by simp
qed

text \<open>The theorem at the request \<open>["bogus", "json"]\<close>, with file output switched off:
  the unknown format is reported as an error, and the JSON export that follows it is
  made and its content reported.\<close>

theorem toMultiple_reports_each_format_witness:
  "''json'' \<notin> set []
   \<and> map_of (fst (toMultiple
        \<lparr>factory = [(''json'', JsonExportStrategy), (''csv'', CsvExportStrategy)],
         defaultOptions = [OutputDir (Some ''./exports''), CreateTimestamp True]\<rparr>
        (JArr [JObj [(''id'', JNum 1)]]) [''bogus'', ''json'']
        [OutputDir None, IncludeMetadata False, Prettify False] []
        \<lparr>clock = ''2025-06-24T03:53:49.000Z'', files = Map.empty,
         write_failure = (\<lambda>p. None), resolve = (\<lambda>d f. d @ ''/'' @ f)\<rparr>)) ''json''
     = Some (Exported (Content (''[{'' @ [dquote] @ ''id'' @ [dquote] @ '':1}]'')))
   \<and> map_of (fst (toMultiple
        \<lparr>factory = [(''json'', JsonExportStrategy), (''csv'', CsvExportStrategy)],
         defaultOptions = [OutputDir (Some ''./exports''), CreateTimestamp True]\<rparr>
        (JArr [JObj [(''id'', JNum 1)]]) [''bogus'', ''json'']
        [OutputDir None, IncludeMetadata False, Prettify False] []
        \<lparr>clock = ''2025-06-24T03:53:49.000Z'', files = Map.empty,
         write_failure = (\<lambda>p. None), resolve = (\<lambda>d f. d @ ''/'' @ f)\<rparr>)) ''bogus''
     = Some (Failed ''Unsupported export format: bogus'')"
proof -
  let ?ex = "\<lparr>factory = [(''json'', JsonExportStrategy), (''csv'', CsvExportStrategy)],
         defaultOptions = [OutputDir (Some ''./exports''), CreateTimestamp True]\<rparr>"
  let ?data = "JArr [JObj [(''id'', JNum 1)]]"
  let ?options = "[OutputDir None, IncludeMetadata False, Prettify False]"
  let ?w = "\<lparr>clock = ''2025-06-24T03:53:49.000Z'', files = Map.empty,
         write_failure = (\<lambda>p. None), resolve = (\<lambda>d f. d @ ''/'' @ f)\<rparr>"
  have h: "''json'' \<notin> set []" by simp
  have bogus: "\<And>w. DataExporter_export ?ex ?data ''bogus'' ?options w
      = (Inl (DataExportError ''Unsupported export format: bogus''), w)"
    by (simp add: export_unsupported toLowerCase_bogus)
  from toMultiple_reports_each_format [OF h, of ?ex ?data "[''bogus'']" ?options "[]" ?w]
  have "map_of (fst (toMultiple ?ex ?data [''bogus'', ''json''] ?options [] ?w)) ''json''
     = Some (Exported (Content (''[{'' @ [dquote] @ ''id'' @ [dquote] @ '':1}]'')))"
    by (simp add: toMultiple_def formatOptions_def bogus json_export_in_memory)
  moreover
  have "map_of (fst (toMultiple ?ex ?data [''bogus'', ''json''] ?options [] ?w)) ''bogus''
     = Some (Failed ''Unsupported export format: bogus'')"
    by (simp add: toMultiple_def formatOptions_def bogus json_export_in_memory)
  ultimately show ?thesis by simp
qed

lemma stringify_hello:
  "JSON_stringify (JObj [(''message'', JStr ''Hello World'')]) 2
     = Some (''{'' @ [newline] @ ''  '' @ [dquote] @ ''message'' @ [dquote] @ '': ''
             @ [dquote] @ ''Hello World'' @ [dquote] @ [newline] @ ''}'')"
  by (simp add: JSON_stringify_def json_wrap_def QuoteJSONString_def json_escape_char_def
      numeral_2_eq_2)

text \<open>With an output directory and no output path in the merged options, the facade
  makes up a path, and the built-in JSON strategy then never returns its content.\<close>

lemma outputPath_last:
  "outputPath (read_options (xs @ [OutputPath p])) = p"
  by (simp add: read_options_def)

lemma return_or_save_path:
  assumes "outputPath config = Some path" and "path \<noteq> []"
  shows "fst (return_or_save content config w) \<noteq> Inr (Content c)"
  using assms by (auto simp: return_or_save_def split: prod.splits sum.splits)

lemma facade_with_outputDir_returns_no_content:
  assumes "\<not> given (outputPath (read_options (defaultOptions this @ options)))"
    and "given (outputDir (read_options (defaultOptions this @ options)))"
    and "map_of (factory this) (toLowerCase format) = Some JsonExportStrategy"
    and "generateOutputPath format (read_options (defaultOptions this @ options)) w \<noteq> []"
  shows "fst (DataExporter_export this data format options w) \<noteq> Inr (Content c)"
proof -
  let ?merged = "defaultOptions this @ options"
  let ?path = "generateOutputPath format (read_options ?merged) w"
  let ?config = "?merged @ [OutputPath (Some ?path)]"
  have run: "DataExporter_export this data format options w
      = JsonExportStrategy_export (JsonExportStrategy_getDefaultOptions @ ?config) data ?config w"
    using assms(1,2,3) by (simp add: DataExporter_export_def create_def Let_def)
  have path: "outputPath (read_options ((JsonExportStrategy_getDefaultOptions @ ?config) @ ?config))
      = Some ?path"
    using outputPath_last [of "(JsonExportStrategy_getDefaultOptions @ ?config) @ ?merged" "Some ?path"]
    by simp
  show ?thesis
    unfolding run JsonExportStrategy_export_def Let_def
    using return_or_save_path [OF path assms(4)]
    by (auto simp: JsonExportStrategy_generateContent_def split: sum.splits)
qed

text \<open>The call that the documentation gives for an in-memory export,
  \<open>new DataExporter().toJSON(data, {prettify: true, includeMetadata: false})\<close>, writes the
  text to a file and returns the path of the file.\<close>

lemma toJSON_default_saves_a_file:
  "DataExporter []
     = Inr \<lparr>factory = [(''json'', JsonExportStrategy), (''csv'', CsvExportStrategy)],
            defaultOptions = [OutputDir (Some ''./exports''), CreateTimestamp True]\<rparr>
   \<and> toJSON
       \<lparr>factory = [(''json'', JsonExportStrategy), (''csv'', CsvExportStrategy)],
        defaultOptions = [OutputDir (Some ''./exports''), CreateTimestamp True]\<rparr>
       (JObj [(''message'', JStr ''Hello World'')])
       [Prettify True, IncludeMetadata False]
       \<lparr>clock = ''2025-06-24T03:53:49.000Z'', files = Map.empty,
        write_failure = (\<lambda>p. None), resolve = (\<lambda>d f. d @ ''/'' @ f)\<rparr>
     = (Inr (SavedTo ''./exports/export-2025-06-24T03-53-49-000Z.json''),
        \<lparr>clock = ''2025-06-24T03:53:49.000Z'',
         files = [''./exports/export-2025-06-24T03-53-49-000Z.json'' \<mapsto>
                    ''{'' @ [newline] @ ''  '' @ [dquote] @ ''message'' @ [dquote] @ '': ''
                    @ [dquote] @ ''Hello World'' @ [dquote] @ [newline] @ ''}''],
         write_failure = (\<lambda>p. None), resolve = (\<lambda>d f. d @ ''/'' @ f)\<rparr>)"
  by (simp add: DataExporter_default toJSON_def DataExporter_export_def create_def
      toLowerCase_json Let_def read_options_def no_options_def generateOutputPath_def
      JsonExportStrategy_export_def JsonExportStrategy_getDefaultOptions_def
      ExportStrategy_getDefaultOptions_def JsonExportStrategy_validate_def
      ExportStrategy_validate_def JsonExportStrategy_transform_def
      JsonExportStrategy_generateContent_def stringify_hello return_or_save_def saveToFile_def)

section \<open>\<open>JSON.parse\<close> inverts \<open>JSON.stringify\<close>\<close>

subsection \<open>White space, numbers and strings\<close>

lemma skip_ws_append: "list_all is_ws ws \<Longrightarrow> skip_ws (ws @ s) = skip_ws s"
  by (induction ws) (simp_all add: skip_ws_def)

lemma skip_ws_id: "s = [] \<or> \<not> is_ws (hd s) \<Longrightarrow> skip_ws s = s"
  by (cases s) (auto simp: skip_ws_def)

lemma is_digit_char_of: "(d::nat) < 10 \<Longrightarrow> is_digit (char_of (48 + d))"
  by (simp add: is_digit_def)

lemma digit_value_char_of: "(d::nat) < 10 \<Longrightarrow> of_char (char_of (48 + d) :: char) - 48 = d"
  by simp

lemma show_nat_digits: "list_all is_digit (show_nat n)"
proof (induction n rule: show_nat.induct)
  case (1 n)
  show ?case
  proof (cases "n < 10")
    case True
    then show ?thesis by (subst show_nat.simps) (simp add: is_digit_char_of)
  next
    case False
    then have "list_all is_digit (show_nat (n div 10))" using 1 by simp
    moreover have "is_digit (char_of (48 + n mod 10))" by (rule is_digit_char_of) simp
    ultimately show ?thesis using False by (subst show_nat.simps) simp
  qed
qed

lemma show_nat_nonempty: "show_nat n \<noteq> []"
  by (subst show_nat.simps) simp

lemma digits_value_append:
  "digits_value (ds @ [c]) = 10 * digits_value ds + (of_char c - 48)"
  by (simp add: digits_value_def)

lemma digits_value_show_nat: "digits_value (show_nat n) = n"
proof (induction n rule: show_nat.induct)
  case (1 n)
  show ?case
  proof (cases "n < 10")
    case True
    then show ?thesis by (subst show_nat.simps) (simp add: digits_value_def)
  next
    case False
    then have "digits_value (show_nat (n div 10)) = n div 10" using 1 by simp
    then show ?thesis using False
      by (subst show_nat.simps) (simp add: digits_value_append)
  qed
qed

lemma hd_show_nat_zero: "hd (show_nat n) = CHR ''0'' \<Longrightarrow> n = 0"
proof (induction n rule: show_nat.induct)
  case (1 n)
  show ?case
  proof (cases "n < 10")
    case True
    with 1(2) have "char_of (48 + n) = CHR ''0''" by (subst (asm) show_nat.simps) simp
    then have "of_char (char_of (48 + n) :: char) = (of_char CHR ''0'' :: nat)" by simp
    with True show ?thesis by simp
  next
    case False
    with 1(2) have "hd (show_nat (n div 10)) = CHR ''0''"
      by (subst (asm) show_nat.simps) (simp add: show_nat_nonempty)
    with 1(1) False have "n div 10 = 0" by simp
    with False show ?thesis by simp
  qed
qed

lemma length_show_nat_zero: "length (show_nat 0) = 1"
  by (subst show_nat.simps) simp

lemma takeWhile_prefix:
  "list_all P xs \<Longrightarrow> ys = [] \<or> \<not> P (hd ys) \<Longrightarrow> takeWhile P (xs @ ys) = xs"
  by (induction xs) (auto simp: takeWhile_eq_Nil_iff neq_Nil_conv)

lemma dropWhile_prefix:
  "list_all P xs \<Longrightarrow> ys = [] \<or> \<not> P (hd ys) \<Longrightarrow> dropWhile P (xs @ ys) = ys"
  by (induction xs) (auto simp: dropWhile_eq_self_iff neq_Nil_conv)

lemma hd_show_nat_digit: "is_digit (hd (show_nat n))"
  using show_nat_digits [of n] show_nat_nonempty [of n] by (cases "show_nat n") simp_all

lemma parse_number_show_nat:
  assumes "number_ends rest"
  shows "parse_number (show_nat k @ rest) = Some (JNum (int k), rest)"
proof -
  have ne: "show_nat k \<noteq> []" by (rule show_nat_nonempty)
  have nominus: "hd (show_nat k @ rest) \<noteq> CHR ''-''"
    using hd_show_nat_digit [of k] ne by (auto simp: is_digit_def)
  have r: "rest = [] \<or> \<not> is_digit (hd rest)" using assms by (auto simp: number_ends_def)
  have tw: "takeWhile is_digit (show_nat k @ rest) = show_nat k"
    by (rule takeWhile_prefix [OF show_nat_digits r])
  have dw: "dropWhile is_digit (show_nat k @ rest) = rest"
    by (rule dropWhile_prefix [OF show_nat_digits r])
  have lz: "\<not> (hd (show_nat k) = CHR ''0'' \<and> 1 < length (show_nat k))"
    using hd_show_nat_zero [of k] length_show_nat_zero by auto
  have e: "\<not> (rest \<noteq> [] \<and> hd rest \<in> set ''.eE'')"
    using assms by (auto simp: number_ends_def)
  show ?thesis
    unfolding parse_number_def Let_def using nominus ne lz e
    by (simp add: tw dw digits_value_show_nat)
qed

lemma parse_number_show_int:
  assumes "number_ends rest"
  shows "parse_number (show_int n @ rest) = Some (JNum n, rest)"
proof (cases "n < 0")
  case False
  then show ?thesis using parse_number_show_nat [OF assms, of "nat n"]
    by (simp add: show_int_def)
next
  case True
  let ?k = "nat (- n)"
  have ne: "show_nat ?k \<noteq> []" by (rule show_nat_nonempty)
  have r: "rest = [] \<or> \<not> is_digit (hd rest)" using assms by (auto simp: number_ends_def)
  have tw: "takeWhile is_digit (show_nat ?k @ rest) = show_nat ?k"
    by (rule takeWhile_prefix [OF show_nat_digits r])
  have dw: "dropWhile is_digit (show_nat ?k @ rest) = rest"
    by (rule dropWhile_prefix [OF show_nat_digits r])
  have "?k \<noteq> 0" using True by simp
  then have lz: "hd (show_nat ?k) \<noteq> CHR ''0''"
    using hd_show_nat_zero [of ?k] by auto
  have e: "\<not> (rest \<noteq> [] \<and> hd rest \<in> set ''.eE'')"
    using assms by (auto simp: number_ends_def)
  show ?thesis
    unfolding parse_number_def Let_def using True ne lz e
    by (simp add: show_int_def tw dw digits_value_show_nat)
qed

lemma hex_value_hex_digit: "m < 16 \<Longrightarrow> hex_value (hex_digit m) = Some m"
  by (auto simp: hex_value_def hex_digit_def Let_def)

lemma parse_chars_escape:
  "parse_chars (json_escape_char c @ t)
     = map_option (\<lambda>(str, rest). (c # str, rest)) (parse_chars t)"
proof -
  let ?n = "of_char c :: nat"
  consider (named) "c = CHR 0x08 \<or> c = CHR 0x09 \<or> c = newline \<or> c = CHR 0x0C \<or>
        c = carriage_return \<or> c = dquote \<or> c = backslash"
    | (control) "\<not> (c = CHR 0x08 \<or> c = CHR 0x09 \<or> c = newline \<or> c = CHR 0x0C \<or>
        c = carriage_return \<or> c = dquote \<or> c = backslash)" "?n < 32"
    | (plain) "\<not> (c = CHR 0x08 \<or> c = CHR 0x09 \<or> c = newline \<or> c = CHR 0x0C \<or>
        c = carriage_return \<or> c = dquote \<or> c = backslash)" "\<not> ?n < 32"
    by blast
  then show ?thesis
  proof cases
    case named
    then show ?thesis
      by (auto simp: json_escape_char_def unescape_def)
  next
    case control
    have a: "hex_value (hex_digit (?n div 16)) = Some (?n div 16)"
      using control(2) by (intro hex_value_hex_digit) simp
    have b: "hex_value (hex_digit (?n mod 16)) = Some (?n mod 16)"
      by (intro hex_value_hex_digit) simp
    have z: "hex_value CHR ''0'' = Some 0" by (simp add: hex_value_def)
    have h: "hex4 CHR ''0'' CHR ''0'' (hex_digit (?n div 16)) (hex_digit (?n mod 16)) = Some ?n"
      by (simp add: hex4_def a b z)
    have u: "utf8 ?n = [c]" using control(2) by (simp add: utf8_def)
    from control show ?thesis
      by (simp add: json_escape_char_def h u)
  next
    case plain
    then show ?thesis by (simp add: json_escape_char_def)
  qed
qed

lemma parse_chars_quoted:
  "parse_chars (concat (map json_escape_char s) @ dquote # rest) = Some (s, rest)"
  by (induction s) (simp_all add: parse_chars_escape)

subsection \<open>Values\<close>

lemma parse_Value:
  "parse_json Value s =
     (case skip_ws s of
        [] \<Rightarrow> None
      | c # r \<Rightarrow>
          if c = CHR ''['' then
            (if skip_ws r \<noteq> [] \<and> hd (skip_ws r) = CHR '']''
             then Some (JArr [], tl (skip_ws r))
             else parse_json Elements r)
          else if c = CHR ''{'' then
            (if skip_ws r \<noteq> [] \<and> hd (skip_ws r) = CHR ''}''
             then Some (JObj [], tl (skip_ws r))
             else Option.bind (parse_json Members r)
                    (\<lambda>(members, rest). Some (object_of (own_entries members), rest)))
          else parse_scalar (c # r))"
  by (subst parse_json.simps) simp

lemma parse_Elements:
  "parse_json Elements s =
     Option.bind (parse_json Value s)
       (\<lambda>(v, r).
          case skip_ws r of
            [] \<Rightarrow> None
          | c # r' \<Rightarrow>
              if c = CHR '','' then
                Option.bind (parse_json Elements r')
                  (\<lambda>(more, rest).
                     case more of JArr vs \<Rightarrow> Some (JArr (v # vs), rest) | _ \<Rightarrow> None)
              else if c = CHR '']'' then Some (JArr [v], r')
              else None)"
  by (subst parse_json.simps) simp

lemma parse_Members:
  "parse_json Members s =
     (case skip_ws s of
        [] \<Rightarrow> None
      | q # r \<Rightarrow>
          if q \<noteq> dquote then None
          else
            (case parse_chars r of
               None \<Rightarrow> None
             | Some (k, r1) \<Rightarrow>
                 (case skip_ws r1 of
                    [] \<Rightarrow> None
                  | colon # r2 \<Rightarrow>
                      if colon \<noteq> CHR '':'' then None
                      else
                        Option.bind (parse_json Value r2)
                          (\<lambda>(v, r3).
                             case skip_ws r3 of
                               [] \<Rightarrow> None
                             | c # r4 \<Rightarrow>
                                 if c = CHR '','' then
                                   Option.bind (parse_json Members r4)
                                     (\<lambda>(more, rest).
                                        case more of
                                          JObj kvs \<Rightarrow> Some (JObj ((k, v) # kvs), rest)
                                        | _ \<Rightarrow> None)
                                 else if c = CHR ''}'' then Some (JObj [(k, v)], r4)
                                 else None))))"
  by (subst parse_json.simps) simp

lemma skip_ws_text:
  assumes "list_all is_ws ws" and "\<not> is_ws c"
  shows "skip_ws (ws @ c # t) = c # t"
proof -
  have "skip_ws (ws @ c # t) = skip_ws (c # t)" using assms(1) by (rule skip_ws_append)
  then show ?thesis using assms(2) by (simp add: skip_ws_def)
qed

lemma parse_value_null:
  "list_all is_ws ws \<Longrightarrow> parse_json Value (ws @ ''null'' @ rest) = Some (JNull, rest)"
  by (simp add: parse_Value skip_ws_text is_ws_def parse_scalar_def)

lemma parse_value_true:
  "list_all is_ws ws \<Longrightarrow> parse_json Value (ws @ ''true'' @ rest) = Some (JBool True, rest)"
  by (simp add: parse_Value skip_ws_text is_ws_def parse_scalar_def)

lemma parse_value_false:
  "list_all is_ws ws \<Longrightarrow> parse_json Value (ws @ ''false'' @ rest) = Some (JBool False, rest)"
  by (simp add: parse_Value skip_ws_text is_ws_def parse_scalar_def)

lemma parse_value_string:
  "list_all is_ws ws \<Longrightarrow>
   parse_json Value (ws @ QuoteJSONString s @ rest) = Some (JStr s, rest)"
  by (simp add: QuoteJSONString_def parse_Value skip_ws_text is_ws_def parse_scalar_def
      parse_chars_quoted)

lemma show_int_first:
  "\<exists>c t. show_int n = c # t \<and> (c = CHR ''-'' \<or> is_digit c)"
proof (cases "n < 0")
  case True
  then show ?thesis by (simp add: show_int_def)
next
  case False
  obtain c t where "show_nat (nat n) = c # t"
    using show_nat_nonempty [of "nat n"] by (cases "show_nat (nat n)") auto
  moreover from this have "is_digit c" using hd_show_nat_digit [of "nat n"] by simp
  ultimately show ?thesis using False by (simp add: show_int_def)
qed

lemma parse_value_number:
  assumes "list_all is_ws ws" and "number_ends rest"
  shows "parse_json Value (ws @ show_int n @ rest) = Some (JNum n, rest)"
proof -
  obtain c t where ct: "show_int n = c # t" and c: "c = CHR ''-'' \<or> is_digit c"
    using show_int_first by blast
  from c have nws: "\<not> is_ws c" by (auto simp: is_ws_def is_digit_def)
  from c have other: "c \<noteq> CHR ''[''" "c \<noteq> CHR ''{''" "c \<noteq> dquote"
      "c \<noteq> CHR ''n''" "c \<noteq> CHR ''t''" "c \<noteq> CHR ''f''"
    by (auto simp: is_digit_def)
  have "parse_json Value (ws @ c # t @ rest) = parse_scalar (c # t @ rest)"
    using assms(1) nws other by (simp add: parse_Value skip_ws_text)
  also have "\<dots> = parse_number (c # t @ rest)"
    using other by (simp add: parse_scalar_def)
  also have "\<dots> = Some (JNum n, rest)"
    using parse_number_show_int [OF assms(2), of n] by (simp add: ct)
  finally show ?thesis by (simp add: ct)
qed

lemma join_Cons: "ps \<noteq> [] \<Longrightarrow> join sep (p # ps) = p @ sep @ join sep ps"
  by (cases ps) simp_all

lemma number_ends_ws: "list_all is_ws w \<Longrightarrow> \<not> is_digit c \<Longrightarrow> c \<notin> set ''.eE'' \<Longrightarrow> number_ends (w @ c # rest)"
  by (cases w) (auto simp: number_ends_def is_ws_def is_digit_def)

lemma json_wrap_first: "\<exists>u. json_wrap opn cls gap stepback parts = opn # u"
  by (simp add: json_wrap_def)

lemma serialize_defined:
  "json_value v \<Longrightarrow> \<exists>t. SerializeJSONProperty gap ind v = Some t"
  by (cases v) simp_all

lemma serialize_first:
  assumes "json_value v" and "SerializeJSONProperty gap ind v = Some t"
  shows "\<exists>c u. t = c # u \<and> \<not> is_ws c \<and> c \<noteq> CHR '']'' \<and> c \<noteq> CHR ''}''"
proof (cases v)
  case (JNum n)
  obtain c u where cu: "show_int n = c # u" and c: "c = CHR ''-'' \<or> is_digit c"
    using show_int_first by blast
  from c have "\<not> is_ws c" "c \<noteq> CHR '']''" "c \<noteq> CHR ''}''"
    by (auto simp: is_ws_def is_digit_def)
  moreover have "t = c # u" using assms JNum cu by simp
  ultimately show ?thesis by blast
next
  case (JArr xs)
  then show ?thesis using assms json_wrap_first [of "CHR ''[''"]
    by (auto simp: is_ws_def json_wrap_def)
next
  case (JObj kvs)
  then show ?thesis using assms
    by (auto simp: is_ws_def json_wrap_def)
qed (use assms in \<open>auto simp: is_ws_def QuoteJSONString_def\<close>)

lemma elements_first:
  assumes "json_values xs" and "xs \<noteq> []"
  shows "\<exists>c u. join sep (SerializeJSONArray gap ind xs) = c # u \<and> \<not> is_ws c \<and> c \<noteq> CHR '']''"
proof -
  obtain x ys where xs: "xs = x # ys" using assms(2) by (cases xs) auto
  then have "json_value x" using assms(1) by simp
  then obtain t where t: "SerializeJSONProperty gap ind x = Some t"
    using serialize_defined by blast
  with \<open>json_value x\<close> obtain c u where "t = c # u" "\<not> is_ws c" "c \<noteq> CHR '']''"
    using serialize_first by blast
  then show ?thesis using xs t
    by (cases "SerializeJSONArray gap ind ys") simp_all
qed

lemma members_first:
  assumes "json_members kvs" and "kvs \<noteq> []"
  shows "\<exists>u. join sep (SerializeJSONObject gap ind kvs) = dquote # u"
proof -
  obtain k v rest where kvs: "kvs = (k, v) # rest" using assms(2) by (cases kvs) auto
  then have "json_value v" using assms(1) by simp
  then obtain t where t: "SerializeJSONProperty gap ind v = Some t"
    using serialize_defined by blast
  show ?thesis using kvs t
    by (cases "SerializeJSONObject gap ind rest") (simp_all add: QuoteJSONString_def)
qed

lemma elements_nonempty:
  "xs \<noteq> [] \<Longrightarrow> SerializeJSONArray gap ind xs \<noteq> []"
  by (cases xs) simp_all

lemma members_nonempty:
  "json_members kvs \<Longrightarrow> kvs \<noteq> [] \<Longrightarrow> SerializeJSONObject gap ind kvs \<noteq> []"
proof (cases kvs)
  case Nil
  then show "kvs \<noteq> [] \<Longrightarrow> ?thesis" by simp
next
  case (Cons a rest)
  obtain k v where a: "a = (k, v)" by (cases a)
  assume "json_members kvs"
  then have "json_value v" using Cons a by simp
  then obtain t where "SerializeJSONProperty gap ind v = Some t"
    using serialize_defined by blast
  then show ?thesis using Cons a by simp
qed

lemma obj_set_fresh: "k \<notin> fst ` set acc \<Longrightarrow> obj_set k v acc = acc @ [(k, v)]"
  by (induction acc) auto

lemma foldl_obj_set_distinct:
  "distinct (map fst (acc @ kvs)) \<Longrightarrow>
   foldl (\<lambda>obj (k, v). obj_set k v obj) acc kvs = acc @ kvs"
proof (induction kvs arbitrary: acc)
  case Nil
  then show ?case by simp
next
  case (Cons a kvs)
  obtain k v where a: "a = (k, v)" by (cases a)
  from Cons.prems have fresh: "k \<notin> fst ` set acc" by (auto simp: a)
  from Cons.prems have "distinct (map fst ((acc @ [(k, v)]) @ kvs))" by (simp add: a)
  then have "foldl (\<lambda>obj (k, v). obj_set k v obj) (acc @ [(k, v)]) kvs = (acc @ [(k, v)]) @ kvs"
    by (rule Cons.IH)
  then show ?case by (simp add: a obj_set_fresh [OF fresh])
qed

lemma object_of_distinct: "distinct (map fst kvs) \<Longrightarrow> object_of kvs = JObj kvs"
  using foldl_obj_set_distinct [of "[]" kvs] by (simp add: object_of_def)

lemma is_ws_chars: "is_ws newline" "is_ws CHR '' ''"
  by (simp_all add: is_ws_def)

lemma skip_ws_nonws: "\<not> is_ws c \<Longrightarrow> skip_ws (c # t) = c # t"
  by (simp add: skip_ws_def)

lemma ws_indent: "list_all is_ws (newline # replicate n CHR '' '')"
  by (simp add: is_ws_chars list_all_iff)

lemma parse_roundtrip:
  "json_value v \<Longrightarrow> SerializeJSONProperty gap ind v = Some t \<Longrightarrow> list_all is_ws ws
     \<Longrightarrow> number_ends rest \<Longrightarrow> parse_json Value (ws @ t @ rest) = Some (v, rest)"
  "json_values xs \<Longrightarrow> xs \<noteq> [] \<Longrightarrow> list_all is_ws w0 \<Longrightarrow> list_all is_ws w1
     \<Longrightarrow> list_all is_ws w2
     \<Longrightarrow> parse_json Elements
           (w0 @ join (CHR '','' # w1) (SerializeJSONArray gap ind xs) @ w2 @ CHR '']'' # rest')
         = Some (JArr xs, rest')"
  "json_members kvs \<Longrightarrow> kvs \<noteq> [] \<Longrightarrow> list_all is_ws w0 \<Longrightarrow> list_all is_ws w1
     \<Longrightarrow> list_all is_ws w2
     \<Longrightarrow> parse_json Members
           (w0 @ join (CHR '','' # w1) (SerializeJSONObject gap ind kvs) @ w2 @ CHR ''}'' # rest')
         = Some (JObj kvs, rest')"
proof (induction gap ind v and gap ind xs and gap ind kvs
    arbitrary: t ws rest and w0 w1 w2 rest' and w0 w1 w2 rest'
    rule: SerializeJSONProperty_SerializeJSONArray_SerializeJSONObject.induct)
  case (1 gap indent)
  then show ?case by simp
next
  case (2 gap indent)
  then show ?case using parse_value_null by auto
next
  case (3 gap indent b)
  then show ?case using parse_value_true parse_value_false by (cases b) auto
next
  case (4 gap indent n)
  then show ?case using parse_value_number by auto
next
  case (5 gap indent s)
  then show ?case using parse_value_string by auto
next
  case (6 gap indent isoText t')
  then show ?case by simp
next
  case (7 gap indent xs)
  let ?parts = "SerializeJSONArray gap (indent + gap) xs"
  have t: "t = json_wrap CHR ''['' CHR '']'' gap indent ?parts" using 7 by simp
  have nws: "\<not> is_ws CHR ''[''" "\<not> is_ws CHR '']''" by (simp_all add: is_ws_def)
  show ?case
  proof (cases "xs = []")
    case True
    then have "t = ''[]''" using t by (simp add: json_wrap_def)
    then show ?thesis using True 7(4) nws
      by (simp add: parse_Value skip_ws_text skip_ws_nonws)
  next
    case False
    then have parts: "?parts \<noteq> []" by (rule elements_nonempty)
    have vs: "json_values xs" using 7(2) by simp
    define w0 where "w0 = (if gap = 0 then [] else newline # replicate (indent + gap) CHR '' '')"
    define w2 where "w2 = (if gap = 0 then [] else newline # replicate indent CHR '' '')"
    have ws0: "list_all is_ws w0" and ws2: "list_all is_ws w2"
      using ws_indent [of "indent + gap"] ws_indent [of indent]
      by (auto simp: w0_def w2_def)
    have shape: "t = CHR ''['' # w0 @ join (CHR '','' # w0) ?parts @ w2 @ CHR '']'' # []"
      using parts by (simp add: t json_wrap_def w0_def w2_def)
    obtain c u where first: "join (CHR '','' # w0) ?parts = c # u" "\<not> is_ws c" "c \<noteq> CHR '']''"
      using elements_first [OF vs False] by blast
    let ?r = "w0 @ join (CHR '','' # w0) ?parts @ w2 @ CHR '']'' # rest"
    have skip: "skip_ws ?r = c # u @ w2 @ CHR '']'' # rest"
      using skip_ws_text [OF ws0 first(2)] by (simp add: first(1))
    have elems: "parse_json Elements ?r = Some (JArr xs, rest)"
      using "7.IH" [OF vs False ws0 ws0 ws2] .
    have "parse_json Value (ws @ t @ rest) = parse_json Elements ?r"
      using 7(4) nws first(3) by (simp add: shape parse_Value skip_ws_text skip)
    then show ?thesis using elems by simp
  qed
next
  case (8 gap indent kvs)
  let ?parts = "SerializeJSONObject gap (indent + gap) kvs"
  have t: "t = json_wrap CHR ''{'' CHR ''}'' gap indent ?parts" using 8 by simp
  have nws: "\<not> is_ws CHR ''{''" "\<not> is_ws CHR ''}''" "\<not> is_ws dquote" by (simp_all add: is_ws_def)
  have dist: "distinct (map fst kvs)" and ms: "json_members kvs" using 8(2) by simp_all
  show ?case
  proof (cases "kvs = []")
    case True
    then have "t = ''{}''" using t by (simp add: json_wrap_def)
    then show ?thesis using True 8(4) nws
      by (simp add: parse_Value skip_ws_text skip_ws_nonws)
  next
    case False
    have parts: "?parts \<noteq> []" using ms False by (rule members_nonempty)
    define w0 where "w0 = (if gap = 0 then [] else newline # replicate (indent + gap) CHR '' '')"
    define w2 where "w2 = (if gap = 0 then [] else newline # replicate indent CHR '' '')"
    have ws0: "list_all is_ws w0" and ws2: "list_all is_ws w2"
      using ws_indent [of "indent + gap"] ws_indent [of indent]
      by (auto simp: w0_def w2_def)
    have shape: "t = CHR ''{'' # w0 @ join (CHR '','' # w0) ?parts @ w2 @ CHR ''}'' # []"
      using parts by (simp add: t json_wrap_def w0_def w2_def)
    obtain u where first: "join (CHR '','' # w0) ?parts = dquote # u"
      using members_first [OF ms False] by blast
    let ?r = "w0 @ join (CHR '','' # w0) ?parts @ w2 @ CHR ''}'' # rest"
    have skip: "skip_ws ?r = dquote # u @ w2 @ CHR ''}'' # rest"
      using skip_ws_text [OF ws0 nws(3)] by (simp add: first)
    have membs: "parse_json Members ?r = Some (JObj kvs, rest)"
      using "8.IH" [OF ms False ws0 ws0 ws2] .
    have "parse_json Value (ws @ t @ rest)
          = Option.bind (parse_json Members ?r)
              (\<lambda>(members, rest). Some (object_of (own_entries members), rest))"
      using 8(4) nws by (simp add: shape parse_Value skip_ws_text skip)
    then show ?thesis using membs by (simp add: object_of_distinct [OF dist])
  qed
next
  case (9 gap indent)
  then show ?case by simp
next
  case (10 gap indent x xs)
  have x: "json_value x" and xs: "json_values xs" using 10(3) by simp_all
  obtain tx where tx: "SerializeJSONProperty gap indent x = Some tx"
    using serialize_defined [OF x] by blast
  have nws: "\<not> is_ws CHR '',''" "\<not> is_ws CHR '']''" by (simp_all add: is_ws_def)
  show ?case
  proof (cases "xs = []")
    case True
    let ?after = "w2 @ CHR '']'' # rest'"
    have ends: "number_ends ?after"
      using number_ends_ws [OF "10.prems"(5)] by (simp add: is_digit_def)
    have "parse_json Value (w0 @ tx @ ?after) = Some (x, ?after)"
      using "10.IH"(1) [OF x tx "10.prems"(3) ends] .
    then show ?thesis using True tx "10.prems"(5) nws
      by (simp add: parse_Elements skip_ws_text)
  next
    case False
    let ?more = "SerializeJSONArray gap indent xs"
    have more: "?more \<noteq> []" using False by (rule elements_nonempty)
    let ?tail = "join (CHR '','' # w1) ?more @ w2 @ CHR '']'' # rest'"
    let ?after = "CHR '','' # w1 @ ?tail"
    have ends: "number_ends ?after" by (simp add: number_ends_def is_digit_def)
    have shape: "w0 @ join (CHR '','' # w1) (SerializeJSONArray gap indent (x # xs)) @ w2 @ CHR '']'' # rest'
        = w0 @ tx @ ?after"
      using more by (simp add: tx join_Cons)
    have v: "parse_json Value (w0 @ tx @ ?after) = Some (x, ?after)"
      using "10.IH"(1) [OF x tx "10.prems"(3) ends] .
    have rest: "parse_json Elements (w1 @ ?tail) = Some (JArr xs, rest')"
      using "10.IH"(2) [OF xs False "10.prems"(4) "10.prems"(4) "10.prems"(5)] .
    show ?thesis
      unfolding shape by (subst parse_Elements) (simp add: v rest skip_ws_nonws nws)
  qed
next
  case (11 gap indent)
  then show ?case by simp
next
  case (12 gap indent k v kvs)
  have v: "json_value v" and kvs: "json_members kvs" using 12(4) by simp_all
  obtain tv where tv: "SerializeJSONProperty gap indent v = Some tv"
    using serialize_defined [OF v] by blast
  have nws: "\<not> is_ws CHR '',''" "\<not> is_ws CHR ''}''" "\<not> is_ws dquote" "\<not> is_ws CHR '':''"
    by (simp_all add: is_ws_def)
  define sp where "sp = (if gap = 0 then [] else '' '')"
  have wsp: "list_all is_ws sp" by (simp add: sp_def is_ws_def)
  have member: "SerializeJSONObject gap indent ((k, v) # kvs)
      = (QuoteJSONString k @ CHR '':'' # sp @ tv) # SerializeJSONObject gap indent kvs"
    by (simp add: tv sp_def)
  let ?key = "concat (map json_escape_char k)"
  show ?case
  proof (cases "kvs = []")
    case True
    let ?after = "w2 @ CHR ''}'' # rest'"
    have ends: "number_ends ?after"
      using number_ends_ws [OF "12.prems"(5)] by (simp add: is_digit_def)
    have shape: "w0 @ join (CHR '','' # w1) (SerializeJSONObject gap indent ((k, v) # kvs)) @ w2 @ CHR ''}'' # rest'
        = w0 @ dquote # ?key @ dquote # CHR '':'' # sp @ tv @ ?after"
      unfolding member by (simp add: True QuoteJSONString_def)
    have val: "parse_json Value (sp @ tv @ ?after) = Some (v, ?after)"
      using "12.IH"(1) [OF v tv wsp ends] .
    show ?thesis
      unfolding shape
      using True "12.prems"(3,5) nws
      by (subst parse_Members)
         (simp add: skip_ws_text parse_chars_quoted skip_ws_nonws val)
  next
    case False
    let ?more = "SerializeJSONObject gap indent kvs"
    have more: "?more \<noteq> []" using kvs False by (rule members_nonempty)
    let ?tail = "join (CHR '','' # w1) ?more @ w2 @ CHR ''}'' # rest'"
    let ?after = "CHR '','' # w1 @ ?tail"
    have ends: "number_ends ?after" by (simp add: number_ends_def is_digit_def)
    have shape: "w0 @ join (CHR '','' # w1) (SerializeJSONObject gap indent ((k, v) # kvs)) @ w2 @ CHR ''}'' # rest'
        = w0 @ dquote # ?key @ dquote # CHR '':'' # sp @ tv @ ?after"
      unfolding member using more by (simp add: join_Cons QuoteJSONString_def)
    have val: "parse_json Value (sp @ tv @ ?after) = Some (v, ?after)"
      using "12.IH"(1) [OF v tv wsp ends] .
    have rest: "parse_json Members (w1 @ ?tail) = Some (JObj kvs, rest')"
      using "12.IH"(3) [OF tv kvs False "12.prems"(4) "12.prems"(4) "12.prems"(5)] .
    show ?thesis
      unfolding shape
      using "12.prems"(3) nws
      by (subst parse_Members)
         (simp add: skip_ws_text parse_chars_quoted skip_ws_nonws val rest)
  qed
qed

lemma JSON_roundtrip:
  assumes "json_value v" and "JSON_stringify v gap = Some t"
  shows "JSON_parse t = Some v"
proof -
  have "parse_json Value ([] @ t @ []) = Some (v, [])"
    using assms by (intro parse_roundtrip(1) [where gap = gap and ind = 0])
      (simp_all add: JSON_stringify_def number_ends_def)
  then show ?thesis by (simp add: JSON_parse_def skip_ws_def)
qed

lemma JSON_stringify_defined: "json_value v \<Longrightarrow> \<exists>t. JSON_stringify v gap = Some t"
  by (simp add: JSON_stringify_def serialize_defined)

lemma json_members_obj_set:
  "json_members kvs \<Longrightarrow> json_value v \<Longrightarrow> json_members (obj_set k v kvs)"
  by (induction kvs) auto

lemma keys_obj_set_present:
  "k \<in> fst ` set kvs \<Longrightarrow> map fst (obj_set k v kvs) = map fst kvs"
proof (induction kvs)
  case Nil
  then show ?case by simp
next
  case (Cons a kvs)
  obtain k' v' where a: "a = (k', v')" by (cases a)
  show ?case
  proof (cases "k = k'")
    case True
    then show ?thesis by (simp add: a)
  next
    case False
    with Cons.prems have "k \<in> fst ` set kvs" by (auto simp: a)
    then show ?thesis using False by (simp add: a Cons.IH)
  qed
qed

lemma distinct_obj_set:
  "distinct (map fst kvs) \<Longrightarrow> distinct (map fst (obj_set k v kvs))"
proof (cases "k \<in> fst ` set kvs")
  case True
  assume "distinct (map fst kvs)"
  then show ?thesis by (simp add: keys_obj_set_present [OF True])
next
  case False
  assume "distinct (map fst kvs)"
  then show ?thesis using False by (simp add: obj_set_fresh [OF False])
qed

lemma json_value_metadata: "json_value (metadata_of t n)"
  by (simp add: metadata_of_def)

lemma transform_cases:
  "JsonExportStrategy_transform t (JArr xs) options
     = (if includeMetadata options
        then JObj [(''metadata'', metadata_of t (int (length xs))), (''data'', JArr xs)]
        else JArr xs)"
  "JsonExportStrategy_transform t (JObj kvs) options
     = (if includeMetadata options
        then JObj (obj_set ''metadata'' (metadata_of t 1) kvs)
        else JObj kvs)"
  by (simp_all add: JsonExportStrategy_transform_def metadata_of_def)

lemma json_value_transform:
  assumes "json_value D" and "is_record D \<or> isArray D"
  shows "json_value (JsonExportStrategy_transform t D options)"
proof (cases D)
  case (JArr xs)
  then show ?thesis using assms(1) by (simp add: transform_cases json_value_metadata)
next
  case (JObj kvs)
  then show ?thesis using assms(1)
    by (simp add: transform_cases json_value_metadata json_members_obj_set distinct_obj_set)
qed (use assms(2) in auto)

lemma return_or_save_no_path:
  "\<not> given (outputPath config) \<Longrightarrow> return_or_save content config w = (Inr (returned content), w)"
  by (cases "outputPath config") (simp_all add: return_or_save_def)

lemma json_export_content:
  assumes "truthy D" and "\<not> given (outputPath (read_options (this_options @ options)))"
    and "JSON_stringify (JsonExportStrategy_transform (clock w) D (read_options (this_options @ options)))
           (if prettify (read_options (this_options @ options)) then 2 else 0) = Some content"
  shows "JsonExportStrategy_export this_options D options w = (Inr (Content content), w)"
  using assms(1,3)
  by (simp add: JsonExportStrategy_export_def JsonExportStrategy_validate_def
      ExportStrategy_validate_def JsonExportStrategy_generateContent_def
      return_or_save_no_path [OF assms(2)] Let_def split: if_splits)

lemma stringify_timestamp:
  "JSON_stringify (JObj [(''timestamp'', JStr ''2025-06-24T03:53:49.000Z'')]) 0
     = Some (''{'' @ [dquote] @ ''timestamp'' @ [dquote] @ '':'' @ [dquote]
             @ ''2025-06-24T03:53:49.000Z'' @ [dquote] @ ''}'')"
  by (simp add: JSON_stringify_def json_wrap_def QuoteJSONString_def json_escape_char_def)

lemma json_export_date_becomes_string:
  "JsonExportStrategy_export JsonExportStrategy_getDefaultOptions
       (JObj [(''timestamp'', JDate ''2025-06-24T03:53:49.000Z'' t)])
       [IncludeMetadata False, Prettify False] w
     = (Inr (Content (''{'' @ [dquote] @ ''timestamp'' @ [dquote] @ '':'' @ [dquote]
                      @ ''2025-06-24T03:53:49.000Z'' @ [dquote] @ ''}'')), w)"
  "JSON_parse (''{'' @ [dquote] @ ''timestamp'' @ [dquote] @ '':'' @ [dquote]
               @ ''2025-06-24T03:53:49.000Z'' @ [dquote] @ ''}'')
     = Some (JObj [(''timestamp'', JStr ''2025-06-24T03:53:49.000Z'')])"
proof -
  let ?D = "JObj [(''timestamp'', JDate ''2025-06-24T03:53:49.000Z'' t)]"
  let ?S = "JObj [(''timestamp'', JStr ''2025-06-24T03:53:49.000Z'')]"
  let ?options = "[IncludeMetadata False, Prettify False]"
  let ?config = "read_options (JsonExportStrategy_getDefaultOptions @ ?options)"
  let ?content = "''{'' @ [dquote] @ ''timestamp'' @ [dquote] @ '':'' @ [dquote]
                  @ ''2025-06-24T03:53:49.000Z'' @ [dquote] @ ''}''"
  have cfg: "\<not> given (outputPath ?config)" "\<not> includeMetadata ?config" "\<not> prettify ?config"
    by (simp_all add: read_options_append json_defaults)
  have T: "\<And>t'. JsonExportStrategy_transform t' ?D ?config = ?D"
    using cfg(2) by (simp add: transform_cases)
  have "JSON_stringify ?D 0 = JSON_stringify ?S 0"
    by (simp add: JSON_stringify_def)
  then have "JSON_stringify ?D 0 = Some ?content"
    by (simp only: stringify_timestamp)
  then show "JsonExportStrategy_export JsonExportStrategy_getDefaultOptions ?D ?options w
               = (Inr (Content ?content), w)"
    using cfg by (intro json_export_content) (simp_all add: T)
  show "JSON_parse ?content = Some ?S"
    using stringify_timestamp by (intro JSON_roundtrip) simp_all
qed

text \<open>
  C3, as stated, fails, in two ways. An export to JSON with no \<open>outputPath\<close> in the
  configuration need not return the JSON text: through the facade, whose default
  \<open>outputDir\<close> makes \<open>export\<close> invent an output path, the call writes the text to a file
  and returns the path. And where the text is returned, parsing it need not give the
  dataset back: a \<open>Date\<close> in the dataset is written as its ISO text and parses back as
  a string.
\<close>

theorem json_export_saves_a_file_or_changes_a_date:
  "toJSON
       \<lparr>factory = [(''json'', JsonExportStrategy), (''csv'', CsvExportStrategy)],
        defaultOptions = [OutputDir (Some ''./exports''), CreateTimestamp True]\<rparr>
       (JObj [(''message'', JStr ''Hello World'')])
       [Prettify True, IncludeMetadata False]
       \<lparr>clock = ''2025-06-24T03:53:49.000Z'', files = Map.empty,
        write_failure = (\<lambda>p. None), resolve = (\<lambda>d f. d @ ''/'' @ f)\<rparr>
     = (Inr (SavedTo ''./exports/export-2025-06-24T03-53-49-000Z.json''),
        \<lparr>clock = ''2025-06-24T03:53:49.000Z'',
         files = [''./exports/export-2025-06-24T03-53-49-000Z.json'' \<mapsto>
                    ''{'' @ [newline] @ ''  '' @ [dquote] @ ''message'' @ [dquote] @ '': ''
                    @ [dquote] @ ''Hello World'' @ [dquote] @ [newline] @ ''}''],
         write_failure = (\<lambda>p. None), resolve = (\<lambda>d f. d @ ''/'' @ f)\<rparr>)
   \<and> JsonExportStrategy_export JsonExportStrategy_getDefaultOptions
         (JObj [(''timestamp'', JDate ''2025-06-24T03:53:49.000Z'' ''Tue Jun 24 2025'')])
         [IncludeMetadata False, Prettify False]
         \<lparr>clock = ''2025-06-24T03:53:49.000Z'', files = Map.empty,
          write_failure = (\<lambda>p. None), resolve = (\<lambda>d f. d @ ''/'' @ f)\<rparr>
       = (Inr (Content (''{'' @ [dquote] @ ''timestamp'' @ [dquote] @ '':'' @ [dquote]
                        @ ''2025-06-24T03:53:49.000Z'' @ [dquote] @ ''}'')),
          \<lparr>clock = ''2025-06-24T03:53:49.000Z'', files = Map.empty,
           write_failure = (\<lambda>p. None), resolve = (\<lambda>d f. d @ ''/'' @ f)\<rparr>)
   \<and> JSON_parse (''{'' @ [dquote] @ ''timestamp'' @ [dquote] @ '':'' @ [dquote]
                  @ ''2025-06-24T03:53:49.000Z'' @ [dquote] @ ''}'')
       = Some (JObj [(''timestamp'', JStr ''2025-06-24T03:53:49.000Z'')])
   \<and> JObj [(''timestamp'', JStr ''2025-06-24T03:53:49.000Z'')]
       \<noteq> JObj [(''timestamp'', JDate ''2025-06-24T03:53:49.000Z'' ''Tue Jun 24 2025'')]"
  using toJSON_default_saves_a_file json_export_date_becomes_string by simp

text \<open>
  C3, amended. For every dataset that is a record or a sequence and consists of JSON
  values only, and all options under which the merged configuration has no output path,
  the export of the JSON strategy returns a text, and parsing the text gives the
  transformed dataset: the dataset itself when \<open>includeMetadata\<close> is off; with it on,
  \<open>{metadata, data}\<close> around a sequence, and the record with its \<open>metadata\<close> field set.
\<close>

theorem json_export_parses_back:
  assumes "json_value D" and "is_record D \<or> isArray D"
    and "\<not> given (outputPath (read_options (this_options @ options)))"
  shows "\<exists>content.
           JsonExportStrategy_export this_options D options w = (Inr (Content content), w)
           \<and> JSON_parse content
               = Some (JsonExportStrategy_transform (clock w) D
                         (read_options (this_options @ options)))
           \<and> (\<not> includeMetadata (read_options (this_options @ options))
                 \<longrightarrow> JSON_parse content = Some D)
           \<and> (includeMetadata (read_options (this_options @ options))
                 \<longrightarrow> (\<forall>xs. D = JArr xs \<longrightarrow>
                        JSON_parse content
                          = Some (JObj [(''metadata'', metadata_of (clock w) (int (length xs))),
                                        (''data'', D)]))
                     \<and> (\<forall>kvs. D = JObj kvs \<longrightarrow>
                        JSON_parse content
                          = Some (JObj (obj_set ''metadata'' (metadata_of (clock w) 1) kvs))))"
proof -
  let ?config = "read_options (this_options @ options)"
  let ?T = "JsonExportStrategy_transform (clock w) D ?config"
  let ?gap = "if prettify ?config then 2 else 0 :: nat"
  have clean: "json_value ?T" using assms(1,2) by (rule json_value_transform)
  then obtain content where content: "JSON_stringify ?T ?gap = Some content"
    using JSON_stringify_defined by blast
  have truthy: "truthy D" using assms(2) by (cases D) auto
  have exported: "JsonExportStrategy_export this_options D options w = (Inr (Content content), w)"
    using truthy assms(3) content by (rule json_export_content)
  have parsed: "JSON_parse content = Some ?T"
    using clean content by (rule JSON_roundtrip)
  have plain: "\<not> includeMetadata ?config \<longrightarrow> JSON_parse content = Some D"
    using parsed assms(2) by (cases D) (auto simp: transform_cases)
  have meta: "includeMetadata ?config
        \<longrightarrow> (\<forall>xs. D = JArr xs \<longrightarrow>
               JSON_parse content
                 = Some (JObj [(''metadata'', metadata_of (clock w) (int (length xs))),
                               (''data'', D)]))
            \<and> (\<forall>kvs. D = JObj kvs \<longrightarrow>
               JSON_parse content
                 = Some (JObj (obj_set ''metadata'' (metadata_of (clock w) 1) kvs)))"
    using parsed by (auto simp: transform_cases)
  from exported parsed plain meta show ?thesis by blast
qed

text \<open>The theorem at \<open>[{"id": 1}]\<close>, exported in the compact form without metadata.\<close>

theorem json_export_parses_back_witness:
  "json_value (JArr [JObj [(''id'', JNum 1)]])
   \<and> (is_record (JArr [JObj [(''id'', JNum 1)]]) \<or> isArray (JArr [JObj [(''id'', JNum 1)]]))
   \<and> \<not> given (outputPath (read_options (JsonExportStrategy_getDefaultOptions
                                          @ [IncludeMetadata False, Prettify False])))
   \<and> JsonExportStrategy_export JsonExportStrategy_getDefaultOptions
         (JArr [JObj [(''id'', JNum 1)]]) [IncludeMetadata False, Prettify False]
         \<lparr>clock = ''2025-06-24T03:53:49.000Z'', files = Map.empty,
          write_failure = (\<lambda>p. None), resolve = (\<lambda>d f. d @ ''/'' @ f)\<rparr>
       = (Inr (Content (''[{'' @ [dquote] @ ''id'' @ [dquote] @ '':1}]'')),
          \<lparr>clock = ''2025-06-24T03:53:49.000Z'', files = Map.empty,
           write_failure = (\<lambda>p. None), resolve = (\<lambda>d f. d @ ''/'' @ f)\<rparr>)
   \<and> JSON_parse (''[{'' @ [dquote] @ ''id'' @ [dquote] @ '':1}]'')
       = Some (JArr [JObj [(''id'', JNum 1)]])"
proof -
  let ?D = "JArr [JObj [(''id'', JNum 1)]]"
  let ?options = "[IncludeMetadata False, Prettify False]"
  let ?config = "read_options (JsonExportStrategy_getDefaultOptions @ ?options)"
  let ?w = "\<lparr>clock = ''2025-06-24T03:53:49.000Z'', files = Map.empty,
          write_failure = (\<lambda>p. None), resolve = (\<lambda>d f. d @ ''/'' @ f)\<rparr>"
  let ?text = "''[{'' @ [dquote] @ ''id'' @ [dquote] @ '':1}]''"
  have h1: "json_value ?D" by simp
  have h2: "is_record ?D \<or> isArray ?D" by simp
  have cfg: "\<not> given (outputPath ?config)" "\<not> includeMetadata ?config" "\<not> prettify ?config"
    by (simp_all add: read_options_append json_defaults)
  have T: "\<And>t. JsonExportStrategy_transform t ?D ?config = ?D"
    using cfg(2) by (simp add: transform_cases)
  have run: "JsonExportStrategy_export JsonExportStrategy_getDefaultOptions ?D ?options ?w
        = (Inr (Content ?text), ?w)"
    using cfg stringify_example by (intro json_export_content) (simp_all add: T)
  from json_export_parses_back [OF h1 h2 cfg(1), of ?w]
  obtain content where
    "JsonExportStrategy_export JsonExportStrategy_getDefaultOptions ?D ?options ?w
       = (Inr (Content content), ?w)"
    and "\<not> includeMetadata ?config \<longrightarrow> JSON_parse content = Some ?D"
    by blast
  with run cfg(2) have "JSON_parse ?text = Some ?D" by simp
  with h1 h2 cfg(1) run show ?thesis by simp
qed

end
